theory Spec2Isabelle
  imports Complex_Main "HOL-Library.Word" "HOL-Library.AList" "HOL-Library.Log_Nat"
begin

section \<open>The JSON library: documents, Go values, floating point\<close>

text \<open>
  Package problem is written against the jsontext encoder and decoder of
  github.com/go-json-experiment/json. The library is not part of the repository; this
  section fixes what the model takes from it, in its default configuration. A JSON
  document is a tree; a number carries the exact value of its literal.
\<close>

datatype json =
    JNull
  | JBool bool
  | JNumber rat
  | JString string
  | JArray "json list"
  | JObject "(string \<times> json) list"

datatype jsonerror =
    SyntacticError
  | SemanticError
  | InvalidUTF8
  | DuplicateName
  | FloatOverflow
  | MarshalerError string

definition error_text :: "jsonerror \<Rightarrow> string" where
  "error_text e =
     (case e of
        SyntacticError \<Rightarrow> ''jsontext: syntactic error''
      | SemanticError \<Rightarrow> ''json: cannot unmarshal into Go value''
      | InvalidUTF8 \<Rightarrow> ''jsontext: invalid UTF-8''
      | DuplicateName \<Rightarrow> ''jsontext: duplicate object member name''
      | FloatOverflow \<Rightarrow> ''json: value out of range''
      | MarshalerError msg \<Rightarrow> msg)"

subsection \<open>Strings\<close>

text \<open>
  A Go string is a byte sequence. The encoder and the decoder reject a string that is
  not valid UTF-8; \<open>utf8_valid\<close> is the check of \<^verbatim>\<open>utf8.ValidString\<close>.
\<close>

definition byte_in :: "char \<Rightarrow> nat \<Rightarrow> nat \<Rightarrow> bool" where
  "byte_in c lo hi = (lo \<le> of_char c \<and> (of_char c :: nat) \<le> hi)"

fun utf8_valid :: "string \<Rightarrow> bool" where
  "utf8_valid [] = True"
| "utf8_valid (c # cs) =
     (if byte_in c 0 0x7F then utf8_valid cs
      else if byte_in c 0xC2 0xDF then
        (case cs of
           c1 # r \<Rightarrow> byte_in c1 0x80 0xBF \<and> utf8_valid r
         | _ \<Rightarrow> False)
      else if byte_in c 0xE0 0xEF then
        (case cs of
           c1 # c2 # r \<Rightarrow>
             byte_in c1 (if of_char c = (0xE0 :: nat) then 0xA0 else 0x80) (if of_char c = (0xED :: nat) then 0x9F else 0xBF)
             \<and> byte_in c2 0x80 0xBF \<and> utf8_valid r
         | _ \<Rightarrow> False)
      else if byte_in c 0xF0 0xF4 then
        (case cs of
           c1 # c2 # c3 # r \<Rightarrow>
             byte_in c1 (if of_char c = (0xF0 :: nat) then 0x90 else 0x80) (if of_char c = (0xF4 :: nat) then 0x8F else 0xBF)
             \<and> byte_in c2 0x80 0xBF \<and> byte_in c3 0x80 0xBF \<and> utf8_valid r
         | _ \<Rightarrow> False)
      else False)"

declare utf8_valid.simps [simp del]

subsection \<open>float64\<close>

text \<open>
  A finite \<^verbatim>\<open>float64\<close> is the rational number it denotes. \<open>float64_round\<close> rounds a
  rational to the nearest \<^verbatim>\<open>float64\<close>, ties to even: 53 significant bits, and no unit
  in the last place below \<open>2 ^ -1074\<close>. It is what parsing a number literal and what the
  conversion \<^verbatim>\<open>float64(n)\<close> of an integer compute.
\<close>

definition pow2 :: "int \<Rightarrow> rat" where
  "pow2 e = (if 0 \<le> e then 2 ^ nat e else 1 / 2 ^ nat (- e))"

definition ilog2 :: "rat \<Rightarrow> int" where
  "ilog2 a = (if 1 \<le> a then bitlen \<lfloor>a\<rfloor> - 1 else - bitlen (\<lceil>1 / a\<rceil> - 1))"

definition round_half_even :: "rat \<Rightarrow> int" where
  "round_half_even x =
     (let f = \<lfloor>x\<rfloor>; r = x - of_int f
      in if r < 1 / 2 then f else if 1 / 2 < r then f + 1 else if even f then f else f + 1)"

definition float64_round :: "rat \<Rightarrow> rat" where
  "float64_round q =
     (if q = 0 then 0
      else let a = \<bar>q\<bar>; s = max (ilog2 a - 52) (- 1074)
           in sgn q * of_int (round_half_even (a / pow2 s)) * pow2 s)"

definition float64_overflow :: "rat \<Rightarrow> bool" where
  "float64_overflow q = (2 ^ 1024 \<le> \<bar>float64_round q\<bar>)"

definition float64_of_int :: "int \<Rightarrow> rat" where
  "float64_of_int n = float64_round (of_int n)"

text \<open>
  The conversion \<^verbatim>\<open>int(v)\<close> of a \<^verbatim>\<open>float64\<close> truncates towards zero. When the truncated
  value is not an \<^verbatim>\<open>int\<close> the language leaves the result to the implementation; it is the
  parameter \<open>ovf\<close>.
\<close>

definition trunc :: "rat \<Rightarrow> int" where
  "trunc v = (if 0 \<le> v then \<lfloor>v\<rfloor> else \<lceil>v\<rceil>)"

definition int_of_float64 :: "(rat \<Rightarrow> 64 word) \<Rightarrow> rat \<Rightarrow> 64 word" where
  "int_of_float64 ovf v =
     (if - (2 ^ 63) \<le> trunc v \<and> trunc v < 2 ^ 63 then word_of_int (trunc v) else ovf v)"

text \<open>
  One implementation: on amd64 the conversion of a value that is out of range gives the
  smallest \<^verbatim>\<open>int\<close>.
\<close>

definition amd64_overflow :: "rat \<Rightarrow> 64 word" where
  "amd64_overflow v = 0x8000000000000000"

section \<open>Data model of package problem\<close>

text \<open>
  Go's \<^verbatim>\<open>int\<close> is taken at its 64-bit width: a \<open>64 word\<close>, read as a signed number
  by \<open>sint\<close>. Go maps are reference values; an extension map lives in a store and a
  \<^verbatim>\<open>Details\<close> or \<^verbatim>\<open>Type\<close> holds a reference to it (\<open>None\<close> is the nil map).
\<close>

type_synonym go_int = "64 word"

type_synonym ref = nat

text \<open>
  \<^verbatim>\<open>Details\<close> (problem.go, lines 33-74) and the error values it can wrap or be wrapped by.
  \<^verbatim>\<open>Details\<close> implements \<^verbatim>\<open>error\<close> and has a field of type \<^verbatim>\<open>error\<close>, so the two types are
  mutually recursive. The error values are the ones \<^verbatim>\<open>errors.As\<close> tells apart:
  \<^item> \<open>ErrDetails d\<close>: a (non-nil) \<^verbatim>\<open>*Details\<close>;
  \<^item> \<open>ErrAs target inner\<close>: an error with an \<^verbatim>\<open>As(any) bool\<close> method that either
    stores \<open>target\<close> and returns true or returns false, and whose \<^verbatim>\<open>Unwrap\<close> gives \<open>inner\<close>
    (\<^verbatim>\<open>asTeapotDetailsError\<close> of handler_test.go);
  \<^item> \<open>ErrWrap msg inner\<close>: any other error, with the result of its \<^verbatim>\<open>Unwrap() error\<close>
    if it has one (\<^verbatim>\<open>errors.New\<close>, \<^verbatim>\<open>wrappedDetailsError\<close>);
  \<^item> \<open>ErrJoin es\<close>: an error with \<^verbatim>\<open>Unwrap() []error\<close>.
\<close>

datatype details = Details
    (Type: string)
    (Status: go_int)
    (Title: string)
    (Detail: string)
    (Instance: string)
    (Extensions: "ref option")
    (Underlying: "goerror option")
and goerror =
    ErrDetails details
  | ErrAs "details option" "goerror option"
  | ErrWrap string "goerror option"
  | ErrJoin "goerror list"

text \<open>\<^verbatim>\<open>Type\<close> (problem.go, lines 386-399).\<close>

record problem_type =
  URI :: string
  TypeTitle :: string
  TypeStatus :: go_int
  TypeExtensions :: "ref option"

definition AboutBlankTypeURI :: string where
  "AboutBlankTypeURI = ''about:blank''"

definition ContentType :: string where
  "ContentType = ''application/problem+json''"

text \<open>\<^verbatim>\<open>cmp.Or\<close> on two strings: the first argument that is not the zero value.\<close>

definition cmp_Or :: "string \<Rightarrow> string \<Rightarrow> string" where
  "cmp_Or a b = (if a \<noteq> [] then a else b)"

section \<open>Go values and the store of maps\<close>

text \<open>
  A value of type \<^verbatim>\<open>any\<close> held in an extension map: the values the decoder produces
  (nil, bool, float64, string, \<^verbatim>\<open>[]any\<close>, \<^verbatim>\<open>map[string]any\<close>), an \<^verbatim>\<open>int\<close>, and a value whose
  type has its own \<^verbatim>\<open>MarshalJSON\<close> method, given by what the method does: it produces a
  document, returns an error or panics (\<^verbatim>\<open>accountsSlice\<close> and \<^verbatim>\<open>panicMarshaler\<close> of the
  tests).
\<close>

datatype panic_value =
    PanicError goerror
  | PanicValue string

datatype marshaler =
    Emits json
  | Fails string
  | Panics panic_value

datatype any =
    ANil
  | ABool bool
  | AFloat64 rat
  | AInt go_int
  | AString string
  | ASlice "any list"
  | AMap "(string \<times> any) list"
  | AMarshaler marshaler

text \<open>
  A Go map is the list of its entries, in the order a \<^verbatim>\<open>range\<close> loop visits them; the
  store is the list of the maps allocated so far and a reference is an index into it.
\<close>

type_synonym gomap = "(string \<times> any) list"

type_synonym heap = "gomap list"

definition alloc :: "heap \<Rightarrow> gomap \<Rightarrow> ref \<times> heap" where
  "alloc h m = (length h, h @ [m])"

text \<open>
  A map value is a reference or nil; \<open>deref\<close> reads it from the store. On a map that
  may be nil: its entries, \<^verbatim>\<open>m[k]\<close>, \<^verbatim>\<open>len(m)\<close> and \<^verbatim>\<open>delete(m, k)\<close>.
\<close>

definition deref :: "heap \<Rightarrow> ref option \<Rightarrow> gomap option" where
  "deref h x = map_option (\<lambda>r. h ! r) x"

definition entries :: "gomap option \<Rightarrow> gomap" where
  "entries m = (case m of None \<Rightarrow> [] | Some kvs \<Rightarrow> kvs)"

definition index :: "gomap option \<Rightarrow> string \<Rightarrow> any option" where
  "index m k = map_of (entries m) k"

definition len :: "gomap option \<Rightarrow> nat" where
  "len m = length (entries m)"

definition delete :: "gomap option \<Rightarrow> string \<Rightarrow> gomap option" where
  "delete m k = map_option (AList.delete k) m"

text \<open>Assignment to one field of a \<^verbatim>\<open>Details\<close>.\<close>

definition set_Type :: "string \<Rightarrow> details \<Rightarrow> details" where
  "set_Type v d =
     Details v (Status d) (Title d) (Detail d) (Instance d) (Extensions d) (Underlying d)"

definition set_Status :: "go_int \<Rightarrow> details \<Rightarrow> details" where
  "set_Status v d =
     Details (Type d) v (Title d) (Detail d) (Instance d) (Extensions d) (Underlying d)"

definition set_Title :: "string \<Rightarrow> details \<Rightarrow> details" where
  "set_Title v d =
     Details (Type d) (Status d) v (Detail d) (Instance d) (Extensions d) (Underlying d)"

definition set_Detail :: "string \<Rightarrow> details \<Rightarrow> details" where
  "set_Detail v d =
     Details (Type d) (Status d) (Title d) v (Instance d) (Extensions d) (Underlying d)"

definition set_Instance :: "string \<Rightarrow> details \<Rightarrow> details" where
  "set_Instance v d =
     Details (Type d) (Status d) (Title d) (Detail d) v (Extensions d) (Underlying d)"

definition set_Extensions :: "ref option \<Rightarrow> details \<Rightarrow> details" where
  "set_Extensions v d =
     Details (Type d) (Status d) (Title d) (Detail d) (Instance d) v (Underlying d)"

definition set_Underlying :: "goerror option \<Rightarrow> details \<Rightarrow> details" where
  "set_Underlying v d =
     Details (Type d) (Status d) (Title d) (Detail d) (Instance d) (Extensions d) v"

section \<open>Options and constructors\<close>








section \<open>Error chains\<close>

text \<open>
  \<^verbatim>\<open>errors.As(err, &d)\<close> with \<^verbatim>\<open>d\<close> of type \<^verbatim>\<open>*Details\<close>: walk the tree of \<^verbatim>\<open>err\<close> depth first;
  at each error, succeed if it is a \<^verbatim>\<open>*Details\<close>, or if its \<^verbatim>\<open>As\<close> method accepts the target;
  otherwise continue with what it unwraps to. \<open>None\<close> is the result \<^verbatim>\<open>false\<close>.
\<close>

fun errors_As :: "goerror \<Rightarrow> details option"
and errors_As_opt :: "goerror option \<Rightarrow> details option"
and errors_As_list :: "goerror list \<Rightarrow> details option" where
  "errors_As (ErrDetails d) = Some d"
| "errors_As (ErrAs target inner) =
     (case target of Some d \<Rightarrow> Some d | None \<Rightarrow> errors_As_opt inner)"
| "errors_As (ErrWrap msg inner) = errors_As_opt inner"
| "errors_As (ErrJoin es) = errors_As_list es"
| "errors_As_opt None = None"
| "errors_As_opt (Some e) = errors_As e"
| "errors_As_list [] = None"
| "errors_As_list (e # es) =
     (case errors_As e of Some d \<Rightarrow> Some d | None \<Rightarrow> errors_As_list es)"

section \<open>Matching a problem type\<close>

text \<open>
  \<^verbatim>\<open>Is\<close> (problem.go, lines 407-424). The \<^verbatim>\<open>err\<close> argument is an interface value and may be
  nil, for which \<^verbatim>\<open>errors.As\<close> returns false.
\<close>

definition Is :: "goerror option \<Rightarrow> problem_type \<Rightarrow> bool" where
  "Is err t =
     (case errors_As_opt err of
        None \<Rightarrow> False
      | Some d \<Rightarrow>
          if URI t \<noteq> [] \<and> URI t \<noteq> cmp_Or (Type d) AboutBlankTypeURI then False
          else if TypeTitle t \<noteq> [] \<and> TypeTitle t \<noteq> Title d then False
          else if TypeStatus t \<noteq> 0 \<and> TypeStatus t \<noteq> Status d then False
          else True)"

section \<open>Encoding\<close>

text \<open>
  What a call into the library or a method of the package does: it returns a value,
  returns an error, or panics.
\<close>

datatype 'a outcome =
    Ok 'a
  | Err jsonerror
  | Panic panic_value

definition and_then :: "'a outcome \<Rightarrow> ('a \<Rightarrow> 'b outcome) \<Rightarrow> 'b outcome" where
  "and_then r f = (case r of Ok x \<Rightarrow> f x | Err e \<Rightarrow> Err e | Panic p \<Rightarrow> Panic p)"

text \<open>
  The tokens the package writes: \<^verbatim>\<open>jsontext.ObjectStart\<close>, \<^verbatim>\<open>jsontext.ObjectEnd\<close>,
  \<^verbatim>\<open>jsontext.String(s)\<close>, \<^verbatim>\<open>jsontext.Int(n)\<close>, and the tokens of one whole value, written by
  \<^verbatim>\<open>json.MarshalEncode\<close>. A \<^verbatim>\<open>jsontext.Encoder\<close> is the sequence of tokens written to it.
\<close>

datatype token =
    ObjectStart
  | ObjectEnd
  | StringToken string
  | IntToken int
  | ValueTokens json

type_synonym encoder = "token list"

definition WriteToken :: "encoder \<Rightarrow> token \<Rightarrow> encoder outcome" where
  "WriteToken enc t =
     (case t of
        StringToken s \<Rightarrow> if utf8_valid s then Ok (enc @ [t]) else Err InvalidUTF8
      | _ \<Rightarrow> Ok (enc @ [t]))"

text \<open>The document the library produces for a Go value.\<close>

fun marshal_any :: "any \<Rightarrow> json outcome"
and marshal_slice :: "any list \<Rightarrow> json list outcome"
and marshal_map :: "(string \<times> any) list \<Rightarrow> (string \<times> json) list outcome" where
  "marshal_any ANil = Ok JNull"
| "marshal_any (ABool b) = Ok (JBool b)"
| "marshal_any (AFloat64 f) = Ok (JNumber f)"
| "marshal_any (AInt n) = Ok (JNumber (of_int (sint n)))"
| "marshal_any (AString s) = (if utf8_valid s then Ok (JString s) else Err InvalidUTF8)"
| "marshal_any (ASlice xs) =
     (case marshal_slice xs of Ok js \<Rightarrow> Ok (JArray js) | Err e \<Rightarrow> Err e | Panic p \<Rightarrow> Panic p)"
| "marshal_any (AMap kvs) =
     (case marshal_map kvs of Ok ms \<Rightarrow> Ok (JObject ms) | Err e \<Rightarrow> Err e | Panic p \<Rightarrow> Panic p)"
| "marshal_any (AMarshaler m) =
     (case m of Emits j \<Rightarrow> Ok j | Fails msg \<Rightarrow> Err (MarshalerError msg) | Panics p \<Rightarrow> Panic p)"
| "marshal_slice [] = Ok []"
| "marshal_slice (x # xs) =
     (case marshal_any x of
        Ok j \<Rightarrow>
          (case marshal_slice xs of
             Ok js \<Rightarrow> Ok (j # js) | Err e \<Rightarrow> Err e | Panic p \<Rightarrow> Panic p)
      | Err e \<Rightarrow> Err e
      | Panic p \<Rightarrow> Panic p)"
| "marshal_map [] = Ok []"
| "marshal_map ((k, x) # kvs) =
     (if \<not> utf8_valid k then Err InvalidUTF8
      else case marshal_any x of
        Ok j \<Rightarrow>
          (case marshal_map kvs of
             Ok ms \<Rightarrow> Ok ((k, j) # ms) | Err e \<Rightarrow> Err e | Panic p \<Rightarrow> Panic p)
      | Err e \<Rightarrow> Err e
      | Panic p \<Rightarrow> Panic p)"

definition MarshalEncode :: "encoder \<Rightarrow> any \<Rightarrow> encoder outcome" where
  "MarshalEncode enc v = and_then (marshal_any v) (\<lambda>j. Ok (enc @ [ValueTokens j]))"

text \<open>
  The loop over the extensions of \<^verbatim>\<open>MarshalJSONTo\<close> (problem.go, lines 235-247), on the
  entries still to visit.
\<close>

fun range_Extensions :: "gomap \<Rightarrow> encoder \<Rightarrow> encoder outcome" where
  "range_Extensions [] enc = Ok enc"
| "range_Extensions ((k, v) # kvs) enc =
     (if k = ''type'' \<or> k = ''status'' \<or> k = ''title'' \<or> k = ''detail'' \<or> k = ''instance''
      then range_Extensions kvs enc
      else case WriteToken enc (StringToken k) of
        Ok enc1 \<Rightarrow>
          (case MarshalEncode enc1 v of
             Ok enc2 \<Rightarrow> range_Extensions kvs enc2
           | Err e \<Rightarrow> Err e
           | Panic p \<Rightarrow> Panic p)
      | Err e \<Rightarrow> Err e
      | Panic p \<Rightarrow> Panic p)"

text \<open>\<^verbatim>\<open>MarshalJSONTo\<close> (problem.go, lines 174-254).\<close>

definition MarshalJSONTo :: "heap \<Rightarrow> details \<Rightarrow> encoder \<Rightarrow> encoder outcome" where
  "MarshalJSONTo h d enc =
     and_then (WriteToken enc ObjectStart) (\<lambda>enc.
     let typ = cmp_Or (Type d) AboutBlankTypeURI in
     and_then
       (if Type d \<noteq> [] then
          and_then (WriteToken enc (StringToken ''type'')) (\<lambda>enc.
          WriteToken enc (StringToken typ))
        else Ok enc) (\<lambda>enc.
     and_then
       (if Status d \<noteq> 0 then
          and_then (WriteToken enc (StringToken ''status'')) (\<lambda>enc.
          WriteToken enc (IntToken (sint (Status d))))
        else Ok enc) (\<lambda>enc.
     and_then
       (if Title d \<noteq> [] then
          and_then (WriteToken enc (StringToken ''title'')) (\<lambda>enc.
          WriteToken enc (StringToken (Title d)))
        else Ok enc) (\<lambda>enc.
     and_then
       (if Detail d \<noteq> [] then
          and_then (WriteToken enc (StringToken ''detail'')) (\<lambda>enc.
          WriteToken enc (StringToken (Detail d)))
        else Ok enc) (\<lambda>enc.
     and_then
       (if Instance d \<noteq> [] then
          and_then (WriteToken enc (StringToken ''instance'')) (\<lambda>enc.
          WriteToken enc (StringToken (Instance d)))
        else Ok enc) (\<lambda>enc.
     and_then (range_Extensions (entries (deref h (Extensions d))) enc) (\<lambda>enc.
     WriteToken enc ObjectEnd)))))))"

text \<open>
  \<^verbatim>\<open>json.Marshal(d)\<close>, which calls \<^verbatim>\<open>MarshalJSONTo\<close> on a new encoder and returns what was
  written.
\<close>

definition json_Marshal :: "heap \<Rightarrow> details \<Rightarrow> token list outcome" where
  "json_Marshal h d = MarshalJSONTo h d []"

text \<open>
  The document a token sequence spells: the members of the object between
  \<open>ObjectStart\<close> and \<open>ObjectEnd\<close>, each a name and a value.
\<close>

fun token_value :: "token \<Rightarrow> json option" where
  "token_value (StringToken s) = Some (JString s)"
| "token_value (IntToken n) = Some (JNumber (of_int n))"
| "token_value (ValueTokens j) = Some j"
| "token_value ObjectStart = None"
| "token_value ObjectEnd = None"

fun members :: "token list \<Rightarrow> (string \<times> json) list option" where
  "members [ObjectEnd] = Some []"
| "members (StringToken k # t # ts) =
     (case token_value t of
        None \<Rightarrow> None
      | Some j \<Rightarrow> (case members ts of None \<Rightarrow> None | Some ms \<Rightarrow> Some ((k, j) # ms)))"
| "members ts = None"

fun document :: "token list \<Rightarrow> json option" where
  "document (ObjectStart # ts) = map_option JObject (members ts)"
| "document ts = None"

text \<open>
  Two notions for stating what was written: the five member names of RFC 9457 that
  the loop skips, and the tokens of a list of members, name before value.
\<close>

definition reserved :: "string \<Rightarrow> bool" where
  "reserved k \<longleftrightarrow>
     k = ''type'' \<or> k = ''status'' \<or> k = ''title'' \<or> k = ''detail'' \<or> k = ''instance''"

definition emit :: "(string \<times> token) list \<Rightarrow> token list" where
  "emit kts = concat (map (\<lambda>(k, t). [StringToken k, t]) kts)"

text \<open>The members that the five struct fields contribute to the object.\<close>

definition fixed_members :: "details \<Rightarrow> (string \<times> json) list" where
  "fixed_members d =
     (if Type d \<noteq> [] then [(''type'', JString (Type d))] else [])
   @ (if Status d \<noteq> 0 then [(''status'', JNumber (of_int (sint (Status d))))] else [])
   @ (if Title d \<noteq> [] then [(''title'', JString (Title d))] else [])
   @ (if Detail d \<noteq> [] then [(''detail'', JString (Detail d))] else [])
   @ (if Instance d \<noteq> [] then [(''instance'', JString (Instance d))] else [])"

section \<open>Decoding\<close>

text \<open>
  A \<^verbatim>\<open>jsontext.Decoder\<close> is what it reads next: input that is not a JSON text, or a
  document.
\<close>

datatype decoder =
    Malformed
  | Document json

text \<open>
  The Go value the library decodes a document to when the target has type \<^verbatim>\<open>any\<close>: a
  number becomes a \<^verbatim>\<open>float64\<close>, an array a \<^verbatim>\<open>[]any\<close>, an object a \<^verbatim>\<open>map[string]any\<close>. A
  number beyond the range of \<^verbatim>\<open>float64\<close>, a string that is not UTF-8 and an object with
  the same name twice are errors.
\<close>

fun unmarshal_any :: "json \<Rightarrow> jsonerror + any"
and unmarshal_array :: "json list \<Rightarrow> jsonerror + any list"
and unmarshal_object :: "(string \<times> json) list \<Rightarrow> jsonerror + (string \<times> any) list" where
  "unmarshal_any JNull = Inr ANil"
| "unmarshal_any (JBool b) = Inr (ABool b)"
| "unmarshal_any (JNumber q) =
     (if float64_overflow q then Inl FloatOverflow else Inr (AFloat64 (float64_round q)))"
| "unmarshal_any (JString s) = (if utf8_valid s then Inr (AString s) else Inl InvalidUTF8)"
| "unmarshal_any (JArray js) =
     (case unmarshal_array js of Inl e \<Rightarrow> Inl e | Inr xs \<Rightarrow> Inr (ASlice xs))"
| "unmarshal_any (JObject ms) =
     (case unmarshal_object ms of Inl e \<Rightarrow> Inl e | Inr kvs \<Rightarrow> Inr (AMap kvs))"
| "unmarshal_array [] = Inr []"
| "unmarshal_array (j # js) =
     (case unmarshal_any j of
        Inl e \<Rightarrow> Inl e
      | Inr x \<Rightarrow> (case unmarshal_array js of Inl e \<Rightarrow> Inl e | Inr xs \<Rightarrow> Inr (x # xs)))"
| "unmarshal_object [] = Inr []"
| "unmarshal_object ((k, j) # ms) =
     (if \<not> utf8_valid k then Inl InvalidUTF8
      else if k \<in> fst ` set ms then Inl DuplicateName
      else case unmarshal_any j of
        Inl e \<Rightarrow> Inl e
      | Inr x \<Rightarrow>
          (case unmarshal_object ms of Inl e \<Rightarrow> Inl e | Inr kvs \<Rightarrow> Inr ((k, x) # kvs)))"

text \<open>What \<open>unmarshal_any\<close> delivers for a string and for a number in range.\<close>

definition delivered :: "json \<Rightarrow> any" where
  "delivered j =
     (case j of
        JString s \<Rightarrow> AString s
      | JNumber q \<Rightarrow> AFloat64 (float64_round q)
      | _ \<Rightarrow> ANil)"

text \<open>
  The documents the library decodes without an error, said of the document alone: at
  every depth the numbers are in the range of \<^verbatim>\<open>float64\<close>, the strings and the member
  names are valid UTF-8, and no object has the same name twice.
\<close>

fun accepted :: "json \<Rightarrow> bool"
and accepted_array :: "json list \<Rightarrow> bool"
and accepted_object :: "(string \<times> json) list \<Rightarrow> bool" where
  "accepted JNull = True"
| "accepted (JBool b) = True"
| "accepted (JNumber q) = (\<not> float64_overflow q)"
| "accepted (JString s) = utf8_valid s"
| "accepted (JArray js) = accepted_array js"
| "accepted (JObject ms) = accepted_object ms"
| "accepted_array [] = True"
| "accepted_array (j # js) = (accepted j \<and> accepted_array js)"
| "accepted_object [] = True"
| "accepted_object ((k, j) # ms) =
     (utf8_valid k \<and> k \<notin> fst ` set ms \<and> accepted j \<and> accepted_object ms)"

text \<open>
  \<^verbatim>\<open>json.UnmarshalDecode(dec, &m, opts)\<close> for a nil \<^verbatim>\<open>m\<close> of type \<^verbatim>\<open>map[string]any\<close>: an
  object fills a new map, \<^verbatim>\<open>null\<close> leaves \<^verbatim>\<open>m\<close> nil without an error, any other value is an
  error.
\<close>

definition UnmarshalDecode :: "decoder \<Rightarrow> jsonerror + gomap option" where
  "UnmarshalDecode dec =
     (case dec of
        Malformed \<Rightarrow> Inl SyntacticError
      | Document JNull \<Rightarrow> Inr None
      | Document (JObject ms) \<Rightarrow>
          (case unmarshal_object ms of Inl e \<Rightarrow> Inl e | Inr kvs \<Rightarrow> Inr (Some kvs))
      | Document _ \<Rightarrow> Inl SemanticError)"

text \<open>
  \<^verbatim>\<open>UnmarshalJSONFrom\<close> (problem.go, lines 270-317): the store and the receiver after
  the call, or the error returned. The local map \<^verbatim>\<open>m\<close> enters the store when it is
  assigned to \<^verbatim>\<open>d.Extensions\<close>.
\<close>

definition UnmarshalJSONFrom ::
  "(rat \<Rightarrow> go_int) \<Rightarrow> decoder \<Rightarrow> heap \<Rightarrow> details \<Rightarrow> jsonerror + heap \<times> details" where
  "UnmarshalJSONFrom ovf dec h d =
     (case UnmarshalDecode dec of
        Inl err \<Rightarrow> Inl err
      | Inr m \<Rightarrow>
          let d = (case index m ''type'' of Some (AString v) \<Rightarrow> set_Type v d | _ \<Rightarrow> d);
              d = (case index m ''status'' of
                     Some (AFloat64 v) \<Rightarrow>
                       if float64_of_int (sint (int_of_float64 ovf v)) = v
                       then set_Status (int_of_float64 ovf v) d else d
                   | _ \<Rightarrow> d);
              d = (case index m ''title'' of Some (AString v) \<Rightarrow> set_Title v d | _ \<Rightarrow> d);
              d = (case index m ''detail'' of Some (AString v) \<Rightarrow> set_Detail v d | _ \<Rightarrow> d);
              d = (case index m ''instance'' of Some (AString v) \<Rightarrow> set_Instance v d | _ \<Rightarrow> d);
              m = delete m ''type'';
              m = delete m ''status'';
              m = delete m ''title'';
              m = delete m ''detail'';
              m = delete m ''instance''
          in if len m \<noteq> 0
             then (let (r, h') = alloc h (entries m) in Inr (h', set_Extensions (Some r) d))
             else Inr (h, d))"

section \<open>Serving a problem\<close>

text \<open>
  The \<^verbatim>\<open>http.ResponseWriter\<close> is a collaborator with three capabilities: its header map,
  \<^verbatim>\<open>WriteHeader\<close> and \<^verbatim>\<open>Write\<close>. It is modelled by the header map, a Go map from canonical
  key to values and so a list of entries, and the calls made so far. Bytes are a text or
  the serialisation of the tokens \<^verbatim>\<open>json.Marshal\<close> returned.
\<close>

datatype bytes =
    Text string
  | Serialized "token list"

datatype call =
    CallWriteHeader go_int
  | CallWrite bytes

record ResponseWriter =
  Header :: "(string \<times> string list) list"
  calls :: "call list"

text \<open>\<^verbatim>\<open>h.Del(k)\<close>, \<^verbatim>\<open>h.Set(k, v)\<close> and \<^verbatim>\<open>h.Get(k)\<close> of \<^verbatim>\<open>http.Header\<close>, for a canonical key.\<close>

definition Header_Del :: "ResponseWriter \<Rightarrow> string \<Rightarrow> ResponseWriter" where
  "Header_Del w k = w\<lparr>Header := AList.delete k (Header w)\<rparr>"

definition Header_Set :: "ResponseWriter \<Rightarrow> string \<Rightarrow> string \<Rightarrow> ResponseWriter" where
  "Header_Set w k v = w\<lparr>Header := AList.update k [v] (Header w)\<rparr>"

definition Header_Get :: "ResponseWriter \<Rightarrow> string \<Rightarrow> string" where
  "Header_Get w k = (case map_of (Header w) k of Some (v # vs) \<Rightarrow> v | _ \<Rightarrow> [])"

definition WriteHeader :: "ResponseWriter \<Rightarrow> go_int \<Rightarrow> ResponseWriter" where
  "WriteHeader w statusCode = w\<lparr>calls := calls w @ [CallWriteHeader statusCode]\<rparr>"

definition Write :: "ResponseWriter \<Rightarrow> bytes \<Rightarrow> ResponseWriter" where
  "Write w b = w\<lparr>calls := calls w @ [CallWrite b]\<rparr>"

definition StatusInternalServerError :: go_int where
  "StatusInternalServerError = 500"

text \<open>How a handler ends, next to the response writer it leaves behind.\<close>

datatype completion =
    Returned
  | Panicked panic_value

text \<open>
  \<^verbatim>\<open>ServeHTTP\<close> (problem.go, lines 329-349). \<^verbatim>\<open>panic(err)\<close> panics with the error of
  \<^verbatim>\<open>json.Marshal\<close>; a panic inside \<^verbatim>\<open>json.Marshal\<close> passes through unchanged.
\<close>

definition ServeHTTP :: "heap \<Rightarrow> details \<Rightarrow> ResponseWriter \<Rightarrow> completion \<times> ResponseWriter" where
  "ServeHTTP h d w =
     (case json_Marshal h d of
        Err err \<Rightarrow> (Panicked (PanicError (ErrWrap (error_text err) None)), w)
      | Panic p \<Rightarrow> (Panicked p, w)
      | Ok b \<Rightarrow>
          let w = Header_Del w ''Content-Length'';
              w = Header_Set w ''Content-Type'' ContentType;
              w = Header_Set w ''X-Content-Type-Options'' ''nosniff'';
              w = (if Status d \<noteq> 0 then WriteHeader w (Status d)
                   else WriteHeader w StatusInternalServerError)
          in (Returned, Write w (Serialized b)))"

section \<open>Recovering from panics\<close>

text \<open>\<^verbatim>\<open>InternalServerError\<close> (handler.go, lines 9-12).\<close>

definition InternalServerError :: details where
  "InternalServerError =
     Details [] StatusInternalServerError ''Internal Server Error'' [] [] None None"

text \<open>
  \<^verbatim>\<open>Handler\<close> (handler.go, lines 20-43). The wrapped handler is a function on the
  response writer that returns or panics; \<^verbatim>\<open>recover()\<close> is nil exactly when it returned.
  The store is the one at the time of the recovery.
\<close>

definition Handler ::
  "heap \<Rightarrow> (ResponseWriter \<Rightarrow> completion \<times> ResponseWriter) \<Rightarrow> ResponseWriter
     \<Rightarrow> completion \<times> ResponseWriter" where
  "Handler h next w =
     (case next w of
        (Returned, w') \<Rightarrow> (Returned, w')
      | (Panicked recovered, w') \<Rightarrow>
          let details = (case recovered of
                           PanicError err \<Rightarrow> errors_As err
                         | PanicValue _ \<Rightarrow> None);
              details = (case details of None \<Rightarrow> InternalServerError | Some d \<Rightarrow> d)
          in ServeHTTP h details w')"

text \<open>The handlers of handler_test.go: \<^verbatim>\<open>textHandler\<close> and \<^verbatim>\<open>panicHandler\<close>.\<close>

definition textHandler :: "string \<Rightarrow> ResponseWriter \<Rightarrow> completion \<times> ResponseWriter" where
  "textHandler text w = (Returned, Write (Header_Set w ''Content-Type'' ''text/plain'') (Text text))"

definition panicHandler :: "panic_value \<Rightarrow> ResponseWriter \<Rightarrow> completion \<times> ResponseWriter" where
  "panicHandler v w = (Panicked v, w)"

section \<open>Properties of the encoder\<close>

lemma and_then_Ok_iff: "and_then r f = Ok y \<longleftrightarrow> (\<exists>x. r = Ok x \<and> f x = Ok y)"
  by (cases r) (simp_all add: and_then_def)

lemma WriteToken_Ok_iff:
  "WriteToken enc t = Ok enc' \<longleftrightarrow>
     enc' = enc @ [t] \<and> (\<forall>s. t = StringToken s \<longrightarrow> utf8_valid s)"
  by (cases t) (auto simp: WriteToken_def)

lemma emit_simps [simp]:
  "emit [] = []" "emit ((k, t) # kts) = StringToken k # t # emit kts"
  "emit (xs @ ys) = emit xs @ emit ys"
  by (simp_all add: emit_def)

lemma field_step:
  "(if c then and_then (WriteToken enc (StringToken k)) (\<lambda>enc. WriteToken enc t) else Ok enc) = Ok enc'
   \<longleftrightarrow> enc' = enc @ emit (if c then [(k, t)] else [])
        \<and> (c \<longrightarrow> utf8_valid k \<and> (\<forall>s. t = StringToken s \<longrightarrow> utf8_valid s))"
  by (auto simp: and_then_Ok_iff WriteToken_Ok_iff)

lemma range_Extensions_Ok:
  "range_Extensions kvs enc = Ok enc' \<Longrightarrow>
     \<exists>ms. enc' = enc @ emit (map (\<lambda>(k, j). (k, ValueTokens j)) ms)
        \<and> map fst ms = filter (\<lambda>k. \<not> reserved k) (map fst kvs)"
proof (induction kvs arbitrary: enc)
  case Nil
  then show ?case by (intro exI [of _ "[]"]) simp
next
  case (Cons kv kvs)
  obtain k v where kv: "kv = (k, v)" by (cases kv)
  show ?case
  proof (cases "reserved k")
    case True
    with Cons.prems kv have "range_Extensions kvs enc = Ok enc'"
      by (simp add: reserved_def)
    from Cons.IH [OF this] True kv show ?thesis by auto
  next
    case False
    with Cons.prems kv obtain j where
      k: "utf8_valid k" and j: "marshal_any v = Ok j"
      and rest: "range_Extensions kvs (enc @ [StringToken k, ValueTokens j]) = Ok enc'"
      by (auto simp: reserved_def WriteToken_def MarshalEncode_def and_then_def
               split: if_splits outcome.splits)
    from Cons.IH [OF rest] obtain ms where
      "enc' = (enc @ [StringToken k, ValueTokens j]) @ emit (map (\<lambda>(k, j). (k, ValueTokens j)) ms)"
      "map fst ms = filter (\<lambda>k. \<not> reserved k) (map fst kvs)"
      by blast
    with False kv show ?thesis
      by (intro exI [of _ "(k, j) # ms"]) simp
  qed
qed

lemma MarshalJSONTo_Ok:
  assumes "MarshalJSONTo h d enc = Ok enc'"
  shows "\<exists>ms. enc' = enc @ ObjectStart #
           emit ((if Type d \<noteq> [] then [(''type'', StringToken (Type d))] else [])
               @ (if Status d \<noteq> 0 then [(''status'', IntToken (sint (Status d)))] else [])
               @ (if Title d \<noteq> [] then [(''title'', StringToken (Title d))] else [])
               @ (if Detail d \<noteq> [] then [(''detail'', StringToken (Detail d))] else [])
               @ (if Instance d \<noteq> [] then [(''instance'', StringToken (Instance d))] else [])
               @ map (\<lambda>(k, j). (k, ValueTokens j)) ms) @ [ObjectEnd]
          \<and> map fst ms = filter (\<lambda>k. \<not> reserved k) (map fst (entries (deref h (Extensions d))))"
proof -
  from assms obtain e1 e2 e3 e4 e5 e6 e7 where
    s1: "WriteToken enc ObjectStart = Ok e1"
    and s2: "(if Type d \<noteq> [] then and_then (WriteToken e1 (StringToken ''type''))
               (\<lambda>enc. WriteToken enc (StringToken (cmp_Or (Type d) AboutBlankTypeURI))) else Ok e1) = Ok e2"
    and s3: "(if Status d \<noteq> 0 then and_then (WriteToken e2 (StringToken ''status''))
               (\<lambda>enc. WriteToken enc (IntToken (sint (Status d)))) else Ok e2) = Ok e3"
    and s4: "(if Title d \<noteq> [] then and_then (WriteToken e3 (StringToken ''title''))
               (\<lambda>enc. WriteToken enc (StringToken (Title d))) else Ok e3) = Ok e4"
    and s5: "(if Detail d \<noteq> [] then and_then (WriteToken e4 (StringToken ''detail''))
               (\<lambda>enc. WriteToken enc (StringToken (Detail d))) else Ok e4) = Ok e5"
    and s6: "(if Instance d \<noteq> [] then and_then (WriteToken e5 (StringToken ''instance''))
               (\<lambda>enc. WriteToken enc (StringToken (Instance d))) else Ok e5) = Ok e6"
    and s7: "range_Extensions (entries (deref h (Extensions d))) e6 = Ok e7"
    and s8: "WriteToken e7 ObjectEnd = Ok enc'"
    unfolding MarshalJSONTo_def Let_def and_then_Ok_iff by blast
  have t: "Type d \<noteq> [] \<Longrightarrow> cmp_Or (Type d) AboutBlankTypeURI = Type d"
    by (simp add: cmp_Or_def)
  from range_Extensions_Ok [OF s7] obtain ms where
    ms: "e7 = e6 @ emit (map (\<lambda>(k, j). (k, ValueTokens j)) ms)"
        "map fst ms = filter (\<lambda>k. \<not> reserved k) (map fst (entries (deref h (Extensions d))))"
    by blast
  from s1 have e1: "e1 = enc @ [ObjectStart]" by (simp add: WriteToken_Ok_iff)
  from s2 have e2: "e2 = e1 @ emit (if Type d \<noteq> [] then [(''type'', StringToken (Type d))] else [])"
    unfolding field_step using t by auto
  from s3 have e3: "e3 = e2 @ emit (if Status d \<noteq> 0 then [(''status'', IntToken (sint (Status d)))] else [])"
    unfolding field_step by auto
  from s4 have e4: "e4 = e3 @ emit (if Title d \<noteq> [] then [(''title'', StringToken (Title d))] else [])"
    unfolding field_step by auto
  from s5 have e5: "e5 = e4 @ emit (if Detail d \<noteq> [] then [(''detail'', StringToken (Detail d))] else [])"
    unfolding field_step by auto
  from s6 have e6: "e6 = e5 @ emit (if Instance d \<noteq> [] then [(''instance'', StringToken (Instance d))] else [])"
    unfolding field_step by auto
  from s8 have e8: "enc' = e7 @ [ObjectEnd]" by (simp add: WriteToken_Ok_iff)
  show ?thesis
    apply (rule exI [of _ ms])
    apply (rule conjI)
    subgoal unfolding e8 ms(1) e6 e5 e4 e3 e2 e1 by (simp only: emit_simps append_assoc append_Cons append_Nil)
    subgoal by (rule ms(2))
    done
qed


lemma members_emit:
  "\<forall>(k, t) \<in> set kts. token_value t \<noteq> None \<Longrightarrow>
     members (emit kts @ [ObjectEnd]) = Some (map (\<lambda>(k, t). (k, the (token_value t))) kts)"
  by (induction kts) auto

lemma values_under_append:
  "[j. (k, j) \<leftarrow> xs @ ys, k = n] = [j. (k, j) \<leftarrow> xs, k = n] @ [j. (k, j) \<leftarrow> ys, k = n]"
  by simp

lemma no_values_under:
  "n \<notin> set (map fst ms) \<Longrightarrow> [j. (k, j) \<leftarrow> ms, k = n] = []"
  by (induction ms) auto

lemma MarshalJSONTo_document:
  assumes "MarshalJSONTo h d enc = Ok enc'"
  shows "\<exists>ts ms. enc' = enc @ ts
          \<and> document ts = Some (JObject
               ((if Type d \<noteq> [] then [(''type'', JString (Type d))] else [])
              @ (if Status d \<noteq> 0 then [(''status'', JNumber (of_int (sint (Status d))))] else [])
              @ (if Title d \<noteq> [] then [(''title'', JString (Title d))] else [])
              @ (if Detail d \<noteq> [] then [(''detail'', JString (Detail d))] else [])
              @ (if Instance d \<noteq> [] then [(''instance'', JString (Instance d))] else [])
              @ ms))
          \<and> map fst ms = filter (\<lambda>k. \<not> reserved k) (map fst (entries (deref h (Extensions d))))"
proof -
  from MarshalJSONTo_Ok [OF assms] obtain ms where
    enc': "enc' = enc @ ObjectStart #
           emit ((if Type d \<noteq> [] then [(''type'', StringToken (Type d))] else [])
               @ (if Status d \<noteq> 0 then [(''status'', IntToken (sint (Status d)))] else [])
               @ (if Title d \<noteq> [] then [(''title'', StringToken (Title d))] else [])
               @ (if Detail d \<noteq> [] then [(''detail'', StringToken (Detail d))] else [])
               @ (if Instance d \<noteq> [] then [(''instance'', StringToken (Instance d))] else [])
               @ map (\<lambda>(k, j). (k, ValueTokens j)) ms) @ [ObjectEnd]"
    and keys: "map fst ms = filter (\<lambda>k. \<not> reserved k) (map fst (entries (deref h (Extensions d))))"
    by blast
  let ?kts = "(if Type d \<noteq> [] then [(''type'', StringToken (Type d))] else [])
               @ (if Status d \<noteq> 0 then [(''status'', IntToken (sint (Status d)))] else [])
               @ (if Title d \<noteq> [] then [(''title'', StringToken (Title d))] else [])
               @ (if Detail d \<noteq> [] then [(''detail'', StringToken (Detail d))] else [])
               @ (if Instance d \<noteq> [] then [(''instance'', StringToken (Instance d))] else [])
               @ map (\<lambda>(k, j). (k, ValueTokens j)) ms"
  have ok: "\<forall>(k, t) \<in> set ?kts. token_value t \<noteq> None"
    by auto
  have "map (\<lambda>(k, t). (k, the (token_value t))) (map (\<lambda>(k, j). (k, ValueTokens j)) ms) = ms"
    by (induction ms) auto
  then have "document (ObjectStart # emit ?kts @ [ObjectEnd]) = Some (JObject
               ((if Type d \<noteq> [] then [(''type'', JString (Type d))] else [])
              @ (if Status d \<noteq> 0 then [(''status'', JNumber (of_int (sint (Status d))))] else [])
              @ (if Title d \<noteq> [] then [(''title'', JString (Title d))] else [])
              @ (if Detail d \<noteq> [] then [(''detail'', JString (Detail d))] else [])
              @ (if Instance d \<noteq> [] then [(''instance'', JString (Instance d))] else [])
              @ ms))"
    unfolding document.simps members_emit [OF ok] by simp
  with enc' keys show ?thesis by blast
qed

lemma not_reserved_filter:
  "reserved n \<Longrightarrow> map fst ms = filter (\<lambda>k. \<not> reserved k) ks \<Longrightarrow> [j. (k, j) \<leftarrow> ms, k = n] = []"
  by (rule no_values_under) auto

lemma names_valid:
  "utf8_valid ''type''" "utf8_valid ''status''" "utf8_valid ''title''" "utf8_valid ''detail''"
  "utf8_valid ''instance''"
  by (simp_all add: utf8_valid.simps byte_in_def)

lemma and_then_Ok [simp]: "and_then (Ok x) f = f x"
  by (simp add: and_then_def)

lemma field_step_string:
  "utf8_valid k \<Longrightarrow> (c \<Longrightarrow> utf8_valid s) \<Longrightarrow>
   (if c then and_then (WriteToken enc (StringToken k)) (\<lambda>enc. WriteToken enc (StringToken s))
    else Ok enc) = Ok (enc @ emit (if c then [(k, StringToken s)] else []))"
  unfolding field_step by simp

lemma field_step_int:
  "utf8_valid k \<Longrightarrow>
   (if c then and_then (WriteToken enc (StringToken k)) (\<lambda>enc. WriteToken enc (IntToken n))
    else Ok enc) = Ok (enc @ emit (if c then [(k, IntToken n)] else []))"
  unfolding field_step by simp

lemma MarshalJSONTo_fixed_only:
  assumes "utf8_valid (Type d)" "utf8_valid (Title d)" "utf8_valid (Detail d)"
    "utf8_valid (Instance d)" "entries (deref h (Extensions d)) = []"
  shows "MarshalJSONTo h d enc = Ok (enc @ ObjectStart #
           emit ((if Type d \<noteq> [] then [(''type'', StringToken (Type d))] else [])
               @ (if Status d \<noteq> 0 then [(''status'', IntToken (sint (Status d)))] else [])
               @ (if Title d \<noteq> [] then [(''title'', StringToken (Title d))] else [])
               @ (if Detail d \<noteq> [] then [(''detail'', StringToken (Detail d))] else [])
               @ (if Instance d \<noteq> [] then [(''instance'', StringToken (Instance d))] else []))
           @ [ObjectEnd])"
proof -
  have t: "utf8_valid (cmp_Or (Type d) AboutBlankTypeURI)" if "Type d \<noteq> []"
    using that assms(1) by (simp add: cmp_Or_def)
  have t': "(if Type d \<noteq> [] then [(''type'', StringToken (cmp_Or (Type d) AboutBlankTypeURI))] else [])
       = (if Type d \<noteq> [] then [(''type'', StringToken (Type d))] else [])"
    by (simp add: cmp_Or_def)
  have s1: "WriteToken enc ObjectStart = Ok (enc @ [ObjectStart])"
    and s8: "WriteToken e ObjectEnd = Ok (e @ [ObjectEnd])" for e
    by (simp_all add: WriteToken_def)
  have s2: "(if Type d \<noteq> [] then and_then (WriteToken e (StringToken ''type''))
               (\<lambda>enc. WriteToken enc (StringToken (cmp_Or (Type d) AboutBlankTypeURI))) else Ok e)
            = Ok (e @ emit (if Type d \<noteq> [] then [(''type'', StringToken (Type d))] else []))" for e
    using field_step_string [OF names_valid(1) t, where enc = e] t' by simp
  have s3: "(if Status d \<noteq> 0 then and_then (WriteToken e (StringToken ''status''))
               (\<lambda>enc. WriteToken enc (IntToken (sint (Status d)))) else Ok e)
            = Ok (e @ emit (if Status d \<noteq> 0 then [(''status'', IntToken (sint (Status d)))] else []))" for e
    by (rule field_step_int [OF names_valid(2)])
  have s4: "(if Title d \<noteq> [] then and_then (WriteToken e (StringToken ''title''))
               (\<lambda>enc. WriteToken enc (StringToken (Title d))) else Ok e)
            = Ok (e @ emit (if Title d \<noteq> [] then [(''title'', StringToken (Title d))] else []))" for e
    by (rule field_step_string [OF names_valid(3) assms(2)])
  have s5: "(if Detail d \<noteq> [] then and_then (WriteToken e (StringToken ''detail''))
               (\<lambda>enc. WriteToken enc (StringToken (Detail d))) else Ok e)
            = Ok (e @ emit (if Detail d \<noteq> [] then [(''detail'', StringToken (Detail d))] else []))" for e
    by (rule field_step_string [OF names_valid(4) assms(3)])
  have s6: "(if Instance d \<noteq> [] then and_then (WriteToken e (StringToken ''instance''))
               (\<lambda>enc. WriteToken enc (StringToken (Instance d))) else Ok e)
            = Ok (e @ emit (if Instance d \<noteq> [] then [(''instance'', StringToken (Instance d))] else []))" for e
    by (rule field_step_string [OF names_valid(5) assms(4)])
  show ?thesis
    unfolding MarshalJSONTo_def Let_def s1 and_then_Ok s2 s3 s4 s5 s6 assms(5)
      range_Extensions.simps s8
    by (simp only: emit_simps append_assoc append_Cons append_Nil)
qed

section \<open>Properties of the conversions between integers and float64\<close>

lemma round_half_even_of_int [simp]: "round_half_even (of_int m) = m"
  by (simp add: round_half_even_def)

lemma pow2_pos: "0 < pow2 e"
  by (simp add: pow2_def)

lemma pow2_nonzero [simp]: "pow2 e \<noteq> 0"
  by (simp add: pow2_def)

lemma float64_round_exact:
  assumes "\<bar>q\<bar> = of_int m * pow2 (max (ilog2 \<bar>q\<bar> - 52) (- 1074))"
  shows "float64_round q = q"
proof (cases "q = 0")
  case True
  then show ?thesis by (simp add: float64_round_def)
next
  case False
  let ?s = "max (ilog2 \<bar>q\<bar> - 52) (- 1074)"
  have nz: "pow2 ?s \<noteq> 0" by simp
  have "\<bar>q\<bar> / pow2 ?s = of_int m"
    using assms nz by (simp add: field_simps)
  then have "float64_round q = sgn q * of_int m * pow2 ?s"
    using False by (simp add: float64_round_def Let_def)
  also have "\<dots> = sgn q * \<bar>q\<bar>" using assms by simp
  also have "\<dots> = q" by (simp add: sgn_mult_abs)
  finally show ?thesis .
qed

lemma ilog2_of_int: "n \<noteq> 0 \<Longrightarrow> ilog2 \<bar>of_int n\<bar> = bitlen \<bar>n\<bar> - 1"
proof -
  assume "n \<noteq> 0"
  then have "1 \<le> \<bar>n\<bar>" by simp
  then have "(1::rat) \<le> \<bar>of_int n\<bar>"
    by (metis of_int_1_le_iff of_int_abs)
  moreover have "\<lfloor>\<bar>of_int n :: rat\<bar>\<rfloor> = \<bar>n\<bar>"
    by (metis floor_of_int of_int_abs)
  ultimately show ?thesis by (simp add: ilog2_def)
qed

lemma float64_of_int_exact:
  assumes "\<bar>n\<bar> \<le> 2 ^ 53"
  shows "float64_of_int n = of_int n"
proof (cases "n = 0")
  case True
  then show ?thesis by (simp add: float64_of_int_def float64_round_def)
next
  case False
  define b where "b = bitlen \<bar>n\<bar>"
  have pos: "0 < \<bar>n\<bar>" using False by simp
  from bitlen_bounds [OF pos] have lo: "2 ^ nat (b - 1) \<le> \<bar>n\<bar>" and hi: "\<bar>n\<bar> < 2 ^ nat b"
    by (simp_all add: b_def)
  have b1: "1 \<le> b" using pos by (simp add: b_def bitlen_alt_def)
  have "(2::int) ^ nat (b - 1) \<le> 2 ^ 53" using lo assms by linarith
  then have "nat (b - 1) \<le> 53" by (intro power_le_imp_le_exp [of "2::int"]) simp
  then have b54: "b \<le> 54" by linarith
  have il: "ilog2 \<bar>of_int n\<bar> = b - 1" using ilog2_of_int [OF False] by (simp add: b_def)
  have s: "max (ilog2 \<bar>of_int n :: rat\<bar> - 52) (- 1074) = b - 53"
    using il b1 by simp
  show ?thesis
  proof (cases "b = 54")
    case True
    then have "2 ^ 53 \<le> \<bar>n\<bar>" using lo by simp
    with assms have n: "\<bar>n\<bar> = 2 ^ 53" by simp
    have "\<bar>of_int n :: rat\<bar> = of_int (2 ^ 52) * pow2 (b - 53)"
    proof -
      have "\<bar>of_int n :: rat\<bar> = of_int \<bar>n\<bar>" by simp
      also have "\<dots> = 2 ^ 53" unfolding n by simp
      finally show ?thesis using True by (simp add: pow2_def)
    qed
    then show ?thesis
      unfolding float64_of_int_def using float64_round_exact [of "of_int n" "2 ^ 52"] s by simp
  next
    case False
    with b54 have b53: "b \<le> 53" by simp
    define k where "k = nat (53 - b)"
    have p: "pow2 (b - 53) = 1 / 2 ^ k"
      using b53 by (auto simp: pow2_def k_def) 
    have "\<bar>of_int n :: rat\<bar> = of_int (\<bar>n\<bar> * 2 ^ k) * pow2 (b - 53)"
      unfolding p by simp
    then show ?thesis
      unfolding float64_of_int_def using float64_round_exact [of "of_int n" "\<bar>n\<bar> * 2 ^ k"] s by simp
  qed
qed

lemma float64_of_int_no_overflow:
  assumes "\<bar>n\<bar> \<le> 2 ^ 53"
  shows "\<not> float64_overflow (of_int n)"
proof -
  have "float64_round (of_int n) = of_int n"
    using float64_of_int_exact [OF assms] by (simp add: float64_of_int_def)
  moreover have "\<bar>of_int n :: rat\<bar> \<le> 2 ^ 53"
    using assms by (metis of_int_abs of_int_le_iff of_int_numeral of_int_power)
  moreover have "(2::rat) ^ 53 < 2 ^ 1024" by simp
  ultimately show ?thesis by (simp add: float64_overflow_def)
qed

lemma trunc_of_int [simp]: "trunc (of_int n) = n"
  by (simp add: trunc_def)

lemma int_of_float64_sint: "int_of_float64 ovf (of_int (sint (s :: 64 word))) = s"
proof -
  have b: "- (2 ^ 63) \<le> sint s \<and> sint s < 2 ^ 63"
    using sint_ge [of s] sint_lt [of s] by simp
  have w: "(word_of_int (sint s) :: 64 word) = s" by simp
  show ?thesis
    unfolding int_of_float64_def trunc_of_int using b w by (simp only: if_True simp_thms)
qed

lemma float64_of_int_Ints: "float64_of_int n \<in> \<int>"
proof (cases "n = 0")
  case True
  then show ?thesis by (simp add: float64_of_int_def float64_round_def)
next
  case False
  define b where "b = bitlen \<bar>n\<bar>"
  have pos: "0 < \<bar>n\<bar>" using False by simp
  have b1: "1 \<le> b" using pos by (simp add: b_def bitlen_alt_def)
  have il: "ilog2 \<bar>of_int n\<bar> = b - 1" using ilog2_of_int [OF False] by (simp add: b_def)
  have s: "max (ilog2 \<bar>of_int n :: rat\<bar> - 52) (- 1074) = b - 53"
    using il b1 by simp
  show ?thesis
  proof (cases "53 \<le> b")
    case True
    then have p: "pow2 (b - 53) = of_int (2 ^ nat (b - 53))"
      by (simp add: pow2_def)
    have nz: "rat_of_int n \<noteq> 0" using False by simp
    have "float64_of_int n = sgn (of_int n) * of_int (round_half_even (\<bar>of_int n\<bar> / pow2 (b - 53))) * pow2 (b - 53)"
      unfolding float64_of_int_def float64_round_def Let_def s using nz by simp
    also have "\<dots> \<in> \<int>"
      unfolding p by (intro Ints_mult) (simp_all add: sgn_if)
    finally show ?thesis .
  next
    case False
    then have b53: "b \<le> 53" by simp
    define k where "k = nat (53 - b)"
    have p: "pow2 (b - 53) = 1 / 2 ^ k"
      using b53 by (auto simp: pow2_def k_def)
    have "\<bar>of_int n :: rat\<bar> = of_int (\<bar>n\<bar> * 2 ^ k) * pow2 (b - 53)"
      unfolding p by simp
    then have "float64_of_int n = of_int n"
      unfolding float64_of_int_def using float64_round_exact [of "of_int n" "\<bar>n\<bar> * 2 ^ k"] s by simp
    then show ?thesis by simp
  qed
qed

section \<open>Properties of the decoder\<close>

lemma UnmarshalJSONFrom_error:
  "UnmarshalDecode dec = Inl err \<Longrightarrow> UnmarshalJSONFrom ovf dec h d = Inl err"
  by (simp add: UnmarshalJSONFrom_def)

lemma UnmarshalDecode_not_object:
  "dec = Malformed \<or> dec = Document (JBool b) \<or> dec = Document (JNumber q)
      \<or> dec = Document (JString s) \<or> dec = Document (JArray js)
   \<Longrightarrow> \<exists>err. UnmarshalDecode dec = Inl err"
  by (auto simp: UnmarshalDecode_def)

lemma UnmarshalJSONFrom_null:
  "UnmarshalJSONFrom ovf (Document JNull) h d = Inr (h, d)"
  by (simp add: UnmarshalJSONFrom_def UnmarshalDecode_def index_def entries_def delete_def len_def)


lemma sel_set [simp]:
  "Type (set_Type v d) = v" "Type (set_Status n d) = Type d" "Type (set_Title v d) = Type d"
  "Type (set_Detail v d) = Type d" "Type (set_Instance v d) = Type d"
  "Type (set_Extensions x d) = Type d" "Type (set_Underlying u d) = Type d"
  "Status (set_Type v d) = Status d" "Status (set_Status n d) = n" "Status (set_Title v d) = Status d"
  "Status (set_Detail v d) = Status d" "Status (set_Instance v d) = Status d"
  "Status (set_Extensions x d) = Status d" "Status (set_Underlying u d) = Status d"
  "Title (set_Type v d) = Title d" "Title (set_Status n d) = Title d" "Title (set_Title v d) = v"
  "Title (set_Detail v d) = Title d" "Title (set_Instance v d) = Title d"
  "Title (set_Extensions x d) = Title d" "Title (set_Underlying u d) = Title d"
  "Detail (set_Type v d) = Detail d" "Detail (set_Status n d) = Detail d" "Detail (set_Title v d) = Detail d"
  "Detail (set_Detail v d) = v" "Detail (set_Instance v d) = Detail d"
  "Detail (set_Extensions x d) = Detail d" "Detail (set_Underlying u d) = Detail d"
  "Instance (set_Type v d) = Instance d" "Instance (set_Status n d) = Instance d"
  "Instance (set_Title v d) = Instance d" "Instance (set_Detail v d) = Instance d"
  "Instance (set_Instance v d) = v" "Instance (set_Extensions x d) = Instance d"
  "Instance (set_Underlying u d) = Instance d"
  "Extensions (set_Type v d) = Extensions d" "Extensions (set_Status n d) = Extensions d"
  "Extensions (set_Title v d) = Extensions d" "Extensions (set_Detail v d) = Extensions d"
  "Extensions (set_Instance v d) = Extensions d" "Extensions (set_Extensions x d) = x"
  "Extensions (set_Underlying u d) = Extensions d"
  "Underlying (set_Type v d) = Underlying d" "Underlying (set_Status n d) = Underlying d"
  "Underlying (set_Title v d) = Underlying d" "Underlying (set_Detail v d) = Underlying d"
  "Underlying (set_Instance v d) = Underlying d" "Underlying (set_Extensions x d) = Underlying d"
  "Underlying (set_Underlying u d) = u"
  by (simp_all add: set_Type_def set_Status_def set_Title_def set_Detail_def set_Instance_def
      set_Extensions_def set_Underlying_def)




lemma UnmarshalJSONFrom_fields:
  assumes "UnmarshalDecode dec = Inr m"
  shows "\<exists>h' d'. UnmarshalJSONFrom ovf dec h d = Inr (h', d')
    \<and> Type d' = (case index m ''type'' of Some (AString v) \<Rightarrow> v | _ \<Rightarrow> Type d)
    \<and> Status d' = (case index m ''status'' of
          Some (AFloat64 v) \<Rightarrow>
            if float64_of_int (sint (int_of_float64 ovf v)) = v then int_of_float64 ovf v else Status d
        | _ \<Rightarrow> Status d)
    \<and> Title d' = (case index m ''title'' of Some (AString v) \<Rightarrow> v | _ \<Rightarrow> Title d)
    \<and> Detail d' = (case index m ''detail'' of Some (AString v) \<Rightarrow> v | _ \<Rightarrow> Detail d)
    \<and> Instance d' = (case index m ''instance'' of Some (AString v) \<Rightarrow> v | _ \<Rightarrow> Instance d)
    \<and> Underlying d' = Underlying d
    \<and> (let m' = delete (delete (delete (delete (delete m ''type'') ''status'') ''title'') ''detail'') ''instance''
       in if len m' \<noteq> 0 then h' = h @ [entries m'] \<and> Extensions d' = Some (length h)
          else h' = h \<and> Extensions d' = Extensions d)"
proof -
  define d1 where "d1 = (case index m ''type'' of Some (AString v) \<Rightarrow> set_Type v d | _ \<Rightarrow> d)"
  define d2 where "d2 = (case index m ''status'' of
                     Some (AFloat64 v) \<Rightarrow>
                       if float64_of_int (sint (int_of_float64 ovf v)) = v
                       then set_Status (int_of_float64 ovf v) d1 else d1
                   | _ \<Rightarrow> d1)"
  define d3 where "d3 = (case index m ''title'' of Some (AString v) \<Rightarrow> set_Title v d2 | _ \<Rightarrow> d2)"
  define d4 where "d4 = (case index m ''detail'' of Some (AString v) \<Rightarrow> set_Detail v d3 | _ \<Rightarrow> d3)"
  define d5 where "d5 = (case index m ''instance'' of Some (AString v) \<Rightarrow> set_Instance v d4 | _ \<Rightarrow> d4)"
  define m' where "m' = delete (delete (delete (delete (delete m ''type'') ''status'') ''title'') ''detail'') ''instance''"
  have res: "UnmarshalJSONFrom ovf dec h d =
       (if len m' \<noteq> 0 then Inr (h @ [entries m'], set_Extensions (Some (length h)) d5) else Inr (h, d5))"
    unfolding UnmarshalJSONFrom_def assms d1_def d2_def d3_def d4_def d5_def m'_def
    by (simp only: Let_def alloc_def sum.case prod.case)
  have s1: "Type d1 = (case index m ''type'' of Some (AString v) \<Rightarrow> v | _ \<Rightarrow> Type d)"
    "Status d1 = Status d" "Title d1 = Title d" "Detail d1 = Detail d"
    "Instance d1 = Instance d" "Underlying d1 = Underlying d" "Extensions d1 = Extensions d"
    unfolding d1_def by (simp_all split: option.splits any.splits)
  have s2: "Status d2 = (case index m ''status'' of
          Some (AFloat64 v) \<Rightarrow>
            if float64_of_int (sint (int_of_float64 ovf v)) = v then int_of_float64 ovf v else Status d1
        | _ \<Rightarrow> Status d1)"
    "Type d2 = Type d1" "Title d2 = Title d1" "Detail d2 = Detail d1"
    "Instance d2 = Instance d1" "Underlying d2 = Underlying d1" "Extensions d2 = Extensions d1"
    unfolding d2_def by (simp_all split: option.splits any.splits)
  have s3: "Title d3 = (case index m ''title'' of Some (AString v) \<Rightarrow> v | _ \<Rightarrow> Title d2)"
    "Type d3 = Type d2" "Status d3 = Status d2" "Detail d3 = Detail d2"
    "Instance d3 = Instance d2" "Underlying d3 = Underlying d2" "Extensions d3 = Extensions d2"
    unfolding d3_def by (simp_all split: option.splits any.splits)
  have s4: "Detail d4 = (case index m ''detail'' of Some (AString v) \<Rightarrow> v | _ \<Rightarrow> Detail d3)"
    "Type d4 = Type d3" "Status d4 = Status d3" "Title d4 = Title d3"
    "Instance d4 = Instance d3" "Underlying d4 = Underlying d3" "Extensions d4 = Extensions d3"
    unfolding d4_def by (simp_all split: option.splits any.splits)
  have s5: "Instance d5 = (case index m ''instance'' of Some (AString v) \<Rightarrow> v | _ \<Rightarrow> Instance d4)"
    "Type d5 = Type d4" "Status d5 = Status d4" "Title d5 = Title d4"
    "Detail d5 = Detail d4" "Underlying d5 = Underlying d4" "Extensions d5 = Extensions d4"
    unfolding d5_def by (simp_all split: option.splits any.splits)
  have ty: "Type d5 = (case index m ''type'' of Some (AString v) \<Rightarrow> v | _ \<Rightarrow> Type d)"
    by (simp only: s1 s2 s3 s4 s5)
  have st: "Status d5 = (case index m ''status'' of
          Some (AFloat64 v) \<Rightarrow>
            if float64_of_int (sint (int_of_float64 ovf v)) = v then int_of_float64 ovf v else Status d
        | _ \<Rightarrow> Status d)"
    by (simp only: s1 s2 s3 s4 s5)
  have ti: "Title d5 = (case index m ''title'' of Some (AString v) \<Rightarrow> v | _ \<Rightarrow> Title d)"
    by (simp only: s1 s2 s3 s4 s5)
  have de: "Detail d5 = (case index m ''detail'' of Some (AString v) \<Rightarrow> v | _ \<Rightarrow> Detail d)"
    by (simp only: s1 s2 s3 s4 s5)
  have ins: "Instance d5 = (case index m ''instance'' of Some (AString v) \<Rightarrow> v | _ \<Rightarrow> Instance d)"
    by (simp only: s1 s2 s3 s4 s5)
  have un: "Underlying d5 = Underlying d"
    by (simp only: s1 s2 s3 s4 s5)
  have ex: "Extensions d5 = Extensions d"
    by (simp only: s1 s2 s3 s4 s5)
  show ?thesis
  proof (cases "len m' \<noteq> 0")
    case True
    with res ty st ti de ins un show ?thesis
      unfolding Let_def m'_def [symmetric]
      by (intro exI [of _ "h @ [entries m']"] exI [of _ "set_Extensions (Some (length h)) d5"]) simp
  next
    case False
    with res ty st ti de ins un ex show ?thesis
      unfolding Let_def m'_def [symmetric]
      by (intro exI [of _ h] exI [of _ d5]) simp
  qed
qed




lemma unmarshal_object_lookup:
  "unmarshal_object ms = Inr kvs \<Longrightarrow>
     map_of kvs k = (case map_of ms k of
                       None \<Rightarrow> None
                     | Some j \<Rightarrow> (case unmarshal_any j of Inl e \<Rightarrow> None | Inr x \<Rightarrow> Some x))"
proof (induction ms arbitrary: kvs)
  case Nil
  then show ?case by simp
next
  case (Cons a ms)
  obtain n j where a: "a = (n, j)" by (cases a)
  from Cons.prems a obtain x kvs' where
    x: "unmarshal_any j = Inr x" and r: "unmarshal_object ms = Inr kvs'" and k: "kvs = (n, x) # kvs'"
    by (auto split: if_splits sum.splits)
  from Cons.IH [OF r] a x k show ?case by simp
qed

lemma unmarshal_any_AString: "unmarshal_any j = Inr (AString s) \<Longrightarrow> j = JString s"
  by (cases j) (auto split: if_splits sum.splits)

lemma unmarshal_any_AFloat64:
  "unmarshal_any j = Inr (AFloat64 v) \<Longrightarrow> \<exists>q. j = JNumber q \<and> v = float64_round q"
  by (cases j) (auto split: if_splits sum.splits)

lemma unmarshal_object_map:
  assumes "distinct (map fst ms)"
    and "\<forall>(k, j) \<in> set ms. utf8_valid k \<and> unmarshal_any j = Inr (f j)"
  shows "unmarshal_object ms = Inr (map (\<lambda>(k, j). (k, f j)) ms)"
  using assms by (induction ms) auto

lemma delete_reserved:
  assumes "\<forall>k \<in> fst ` set kvs. reserved k"
  shows "AList.delete ''instance'' (AList.delete ''detail'' (AList.delete ''title''
           (AList.delete ''status'' (AList.delete ''type'' kvs)))) = []"
  using assms by (induction kvs) (auto simp: AList.delete_eq reserved_def)

lemma fixed_members_distinct: "distinct (map fst (fixed_members d))"
  by (simp add: fixed_members_def)

lemma fixed_members_reserved: "\<forall>k \<in> fst ` set (fixed_members d). reserved k"
  by (auto simp: fixed_members_def reserved_def)

lemma fixed_members_lookup:
  "map_of (fixed_members d) ''type'' = (if Type d \<noteq> [] then Some (JString (Type d)) else None)"
  "map_of (fixed_members d) ''status'' =
     (if Status d \<noteq> 0 then Some (JNumber (of_int (sint (Status d)))) else None)"
  "map_of (fixed_members d) ''title'' = (if Title d \<noteq> [] then Some (JString (Title d)) else None)"
  "map_of (fixed_members d) ''detail'' = (if Detail d \<noteq> [] then Some (JString (Detail d)) else None)"
  "map_of (fixed_members d) ''instance'' =
     (if Instance d \<noteq> [] then Some (JString (Instance d)) else None)"
  by (simp_all add: fixed_members_def)

lemma MarshalJSONTo_fixed_document:
  assumes "utf8_valid (Type d)" "utf8_valid (Title d)" "utf8_valid (Detail d)"
    "utf8_valid (Instance d)" "entries (deref h (Extensions d)) = []"
  shows "\<exists>ts. json_Marshal h d = Ok ts \<and> document ts = Some (JObject (fixed_members d))"
proof -
  from MarshalJSONTo_fixed_only [OF assms, of "[]"] obtain ts where
    ts: "MarshalJSONTo h d [] = Ok ts" by blast
  from MarshalJSONTo_document [OF ts] obtain ts' ms where
    a: "ts = [] @ ts'"
    and b: "document ts' = Some (JObject
               ((if Type d \<noteq> [] then [(''type'', JString (Type d))] else [])
              @ (if Status d \<noteq> 0 then [(''status'', JNumber (of_int (sint (Status d))))] else [])
              @ (if Title d \<noteq> [] then [(''title'', JString (Title d))] else [])
              @ (if Detail d \<noteq> [] then [(''detail'', JString (Detail d))] else [])
              @ (if Instance d \<noteq> [] then [(''instance'', JString (Instance d))] else [])
              @ ms))"
    and c: "map fst ms = filter (\<lambda>k. \<not> reserved k) (map fst (entries (deref h (Extensions d))))"
    by blast
  from c assms(5) have "ms = []" by simp
  with a b have "document ts = Some (JObject (fixed_members d))"
    unfolding fixed_members_def by (simp only: append_Nil append_Nil2 append_assoc)
  with ts show ?thesis unfolding json_Marshal_def by blast
qed

lemma fixed_members_mem:
  assumes "(k, j) \<in> set (fixed_members d)"
  shows "k = ''type'' \<and> j = JString (Type d)
       \<or> k = ''status'' \<and> j = JNumber (of_int (sint (Status d)))
       \<or> k = ''title'' \<and> j = JString (Title d)
       \<or> k = ''detail'' \<and> j = JString (Detail d)
       \<or> k = ''instance'' \<and> j = JString (Instance d)"
  using assms by (auto simp: fixed_members_def split: if_splits)

lemma fixed_members_delivered:
  assumes "utf8_valid (Type d)" "utf8_valid (Title d)" "utf8_valid (Detail d)"
    "utf8_valid (Instance d)" "\<bar>sint (Status d)\<bar> \<le> 2 ^ 53"
  shows "unmarshal_object (fixed_members d) = Inr (map (\<lambda>(k, j). (k, delivered j)) (fixed_members d))"
proof (rule unmarshal_object_map [OF fixed_members_distinct])
  have n: "\<not> float64_overflow (of_int (sint (Status d)))"
    by (rule float64_of_int_no_overflow [OF assms(5)])
  have "utf8_valid k \<and> unmarshal_any j = Inr (delivered j)"
    if "(k, j) \<in> set (fixed_members d)" for k j
    using fixed_members_mem [OF that] assms(1-4) n
    by (elim disjE conjE) (simp_all add: delivered_def names_valid del: of_int_sint)
  then show "\<forall>(k, j) \<in> set (fixed_members d). utf8_valid k \<and> unmarshal_any j = Inr (delivered j)"
    by blast
qed

lemma delivered_lookup:
  "index (Some (map (\<lambda>(k, j). (k, delivered j)) ms)) k = map_option delivered (map_of ms k)"
  by (simp add: index_def entries_def map_of_map)

lemma unmarshal_accepted:
  "(\<exists>x. unmarshal_any j = Inr x) = accepted j"
  "(\<exists>xs. unmarshal_array js = Inr xs) = accepted_array js"
  "(\<exists>kvs. unmarshal_object ms = Inr kvs) = accepted_object ms"
  by (induction j and js and ms rule: unmarshal_any_unmarshal_array_unmarshal_object.induct)
     (auto split: sum.splits)

lemma unmarshal_object_rejected:
  "\<not> accepted_object ms \<Longrightarrow> \<exists>err. unmarshal_object ms = Inl err"
  using unmarshal_accepted(3) [of ms] by (cases "unmarshal_object ms") auto

lemma wrong_type_ignored:
  assumes "unmarshal_object ms = Inr kvs"
  shows "\<exists>h' d'. UnmarshalJSONFrom ovf (Document (JObject ms)) h d = Inr (h', d')
    \<and> ((\<forall>s. map_of ms ''type'' \<noteq> Some (JString s)) \<longrightarrow> Type d' = Type d)
    \<and> ((\<forall>q. map_of ms ''status'' = Some (JNumber q) \<longrightarrow> float64_round q \<notin> \<int>)
         \<longrightarrow> Status d' = Status d)
    \<and> ((\<forall>s. map_of ms ''title'' \<noteq> Some (JString s)) \<longrightarrow> Title d' = Title d)
    \<and> ((\<forall>s. map_of ms ''detail'' \<noteq> Some (JString s)) \<longrightarrow> Detail d' = Detail d)
    \<and> ((\<forall>s. map_of ms ''instance'' \<noteq> Some (JString s)) \<longrightarrow> Instance d' = Instance d)"
proof -
  have dec: "UnmarshalDecode (Document (JObject ms)) = Inr (Some kvs)"
    using assms by (simp add: UnmarshalDecode_def)
  have idx: "index (Some kvs) k = map_of kvs k" for k
    by (simp add: index_def entries_def)
  have str: "(case index (Some kvs) k of Some (AString v) \<Rightarrow> v | _ \<Rightarrow> x) = x"
    if "\<forall>s. map_of ms k \<noteq> Some (JString s)" for k and x :: string
  proof -
    have "map_of kvs k \<noteq> Some (AString s)" for s
      using that unmarshal_object_lookup [OF assms, of k] unmarshal_any_AString
      by (auto split: option.splits sum.splits)
    then show ?thesis
      unfolding idx by (auto split: option.splits any.splits)
  qed
  have num: "(case index (Some kvs) ''status'' of
          Some (AFloat64 v) \<Rightarrow>
            if float64_of_int (sint (int_of_float64 ovf v)) = v then int_of_float64 ovf v else x
        | _ \<Rightarrow> x) = x"
    if "\<forall>q. map_of ms ''status'' = Some (JNumber q) \<longrightarrow> float64_round q \<notin> \<int>" for x
  proof -
    have "v \<notin> \<int>" if "map_of kvs ''status'' = Some (AFloat64 v)" for v
      using that \<open>\<forall>q. map_of ms ''status'' = Some (JNumber q) \<longrightarrow> float64_round q \<notin> \<int>\<close>
        unmarshal_object_lookup [OF assms, of "''status''"] unmarshal_any_AFloat64
      by (auto split: option.splits sum.splits)
    then have "float64_of_int n \<noteq> v" if "map_of kvs ''status'' = Some (AFloat64 v)" for v n
      using that float64_of_int_Ints [of n] by metis
    then show ?thesis
      unfolding idx by (auto split: option.splits any.splits)
  qed
  from UnmarshalJSONFrom_fields [OF dec, of ovf h d] obtain h' d' where
    r: "UnmarshalJSONFrom ovf (Document (JObject ms)) h d = Inr (h', d')"
    and f: "Type d' = (case index (Some kvs) ''type'' of Some (AString v) \<Rightarrow> v | _ \<Rightarrow> Type d)"
      "Status d' = (case index (Some kvs) ''status'' of
          Some (AFloat64 v) \<Rightarrow>
            if float64_of_int (sint (int_of_float64 ovf v)) = v then int_of_float64 ovf v else Status d
        | _ \<Rightarrow> Status d)"
      "Title d' = (case index (Some kvs) ''title'' of Some (AString v) \<Rightarrow> v | _ \<Rightarrow> Title d)"
      "Detail d' = (case index (Some kvs) ''detail'' of Some (AString v) \<Rightarrow> v | _ \<Rightarrow> Detail d)"
      "Instance d' = (case index (Some kvs) ''instance'' of Some (AString v) \<Rightarrow> v | _ \<Rightarrow> Instance d)"
    by blast
  have 1: "Type d' = Type d" if "\<forall>s. map_of ms ''type'' \<noteq> Some (JString s)"
    using f(1) str [OF that, of "Type d"] by simp
  have 2: "Status d' = Status d"
    if "\<forall>q. map_of ms ''status'' = Some (JNumber q) \<longrightarrow> float64_round q \<notin> \<int>"
    using f(2) num [OF that, of "Status d"] by simp
  have 3: "Title d' = Title d" if "\<forall>s. map_of ms ''title'' \<noteq> Some (JString s)"
    using f(3) str [OF that, of "Title d"] by simp
  have 4: "Detail d' = Detail d" if "\<forall>s. map_of ms ''detail'' \<noteq> Some (JString s)"
    using f(4) str [OF that, of "Detail d"] by simp
  have 5: "Instance d' = Instance d" if "\<forall>s. map_of ms ''instance'' \<noteq> Some (JString s)"
    using f(5) str [OF that, of "Instance d"] by simp
  from r 1 2 3 4 5 show ?thesis by blast
qed

section \<open>Properties of serving and of recovery\<close>

lemma ServeHTTP_Ok:
  assumes "json_Marshal h d = Ok b"
  shows "ServeHTTP h d w =
     (Returned,
      \<lparr>Header = AList.update ''X-Content-Type-Options'' [''nosniff'']
                 (AList.update ''Content-Type'' [''application/problem+json'']
                   (AList.delete ''Content-Length'' (Header w))),
       calls = calls w @ [CallWriteHeader (if Status d \<noteq> 0 then Status d else 500),
                          CallWrite (Serialized b)]\<rparr>)"
  using assms
  by (simp add: ServeHTTP_def Header_Del_def Header_Set_def WriteHeader_def Write_def
      ContentType_def StatusInternalServerError_def Let_def)

lemma ServeHTTP_Err:
  "json_Marshal h d = Err e \<Longrightarrow>
     ServeHTTP h d w = (Panicked (PanicError (ErrWrap (error_text e) None)), w)"
  by (simp add: ServeHTTP_def)

lemma ServeHTTP_Panic:
  "json_Marshal h d = Panic p \<Longrightarrow> ServeHTTP h d w = (Panicked p, w)"
  by (simp add: ServeHTTP_def)

lemma json_Marshal_document:
  assumes "json_Marshal h d = Ok b"
  shows "\<exists>ms. document b = Some (JObject ms)"
  using MarshalJSONTo_document [of h d "[]" b] assms unfolding json_Marshal_def by auto

lemma json_Marshal_InternalServerError:
  "json_Marshal h InternalServerError =
     Ok [ObjectStart, StringToken ''status'', IntToken 500,
         StringToken ''title'', StringToken ''Internal Server Error'', ObjectEnd]"
proof -
  have v: "utf8_valid ''Internal Server Error''" "utf8_valid []"
    by (simp_all add: utf8_valid.simps byte_in_def)
  have "MarshalJSONTo h InternalServerError [] =
     Ok [ObjectStart, StringToken ''status'', IntToken 500,
         StringToken ''title'', StringToken ''Internal Server Error'', ObjectEnd]"
    using MarshalJSONTo_fixed_only [of InternalServerError h "[]"] v
    by (simp add: InternalServerError_def StatusInternalServerError_def entries_def deref_def)
  then show ?thesis by (simp add: json_Marshal_def)
qed

lemma Handler_Returned: "next w = (Returned, w') \<Longrightarrow> Handler h next w = (Returned, w')"
  by (simp add: Handler_def)

lemma Handler_Details:
  "next w = (Panicked (PanicError err), w') \<Longrightarrow> errors_As err = Some d \<Longrightarrow>
     Handler h next w = ServeHTTP h d w'"
  by (simp add: Handler_def)

lemma Handler_InternalServerError:
  "next w = (Panicked v, w') \<Longrightarrow>
   v = PanicValue x \<or> v = PanicError err \<and> errors_As err = None \<Longrightarrow>
     Handler h next w = ServeHTTP h InternalServerError w'"
  by (auto simp: Handler_def)

section \<open>Properties of the options\<close>







section \<open>Claims about encoding\<close>

text \<open>
  Claim C1, as amended. The claim is that a \<^verbatim>\<open>Details\<close> with an empty \<^verbatim>\<open>Type\<close> is encoded
  with a member \<^verbatim>\<open>"type": "about:blank"\<close>. The code computes \<^verbatim>\<open>cmp.Or(d.Type, AboutBlankTypeURI)\<close>
  but writes the member only under \<^verbatim>\<open>if d.Type != ""\<close>, and the tests expect \<^verbatim>\<open>{}\<close> for the
  empty value. What holds: whenever the encoding succeeds, what was written is one
  object; it has no member named \<^verbatim>\<open>type\<close> when \<^verbatim>\<open>Type\<close> is empty, whatever the extensions
  hold, and exactly one, with the value of the field, when \<^verbatim>\<open>Type\<close> is not empty.
\<close>

theorem MarshalJSONTo_type_member:
  assumes "MarshalJSONTo h d enc = Ok enc'"
  shows "\<exists>ts ms. enc' = enc @ ts \<and> document ts = Some (JObject ms)
          \<and> [j. (k, j) \<leftarrow> ms, k = ''type''] = (if Type d = [] then [] else [JString (Type d)])"
proof -
  from MarshalJSONTo_document [OF assms] obtain ts xs where
    ts: "enc' = enc @ ts"
    and doc: "document ts = Some (JObject
               ((if Type d \<noteq> [] then [(''type'', JString (Type d))] else [])
              @ (if Status d \<noteq> 0 then [(''status'', JNumber (of_int (sint (Status d))))] else [])
              @ (if Title d \<noteq> [] then [(''title'', JString (Title d))] else [])
              @ (if Detail d \<noteq> [] then [(''detail'', JString (Detail d))] else [])
              @ (if Instance d \<noteq> [] then [(''instance'', JString (Instance d))] else [])
              @ xs))"
    and keys: "map fst xs = filter (\<lambda>k. \<not> reserved k) (map fst (entries (deref h (Extensions d))))"
    by blast
  have "reserved ''type''" by (simp add: reserved_def)
  note x = not_reserved_filter [OF this keys]
  show ?thesis
    apply (intro exI conjI)
      apply (rule ts)
     apply (rule doc)
    using x by (simp del: map_eq_conv)
qed

text \<open>The example of the claim: \<^verbatim>\<open>Type\<close> empty and \<^verbatim>\<open>Title\<close> \<^verbatim>\<open>"T"\<close>, with an extension named \<^verbatim>\<open>type\<close>.\<close>

theorem MarshalJSONTo_type_member_witness:
  "MarshalJSONTo [[(''type'', AString ''x'')]] (Details [] 0 ''T'' [] [] (Some 0) None) []
     = Ok [ObjectStart, StringToken ''title'', StringToken ''T'', ObjectEnd]
   \<and> (\<exists>ts ms. [ObjectStart, StringToken ''title'', StringToken ''T'', ObjectEnd] = [] @ ts
         \<and> document ts = Some (JObject ms) \<and> [j. (k, j) \<leftarrow> ms, k = ''type''] = [])"
proof -
  have h: "MarshalJSONTo [[(''type'', AString ''x'')]] (Details [] 0 ''T'' [] [] (Some 0) None) []
             = Ok [ObjectStart, StringToken ''title'', StringToken ''T'', ObjectEnd]"
    by code_simp
  from MarshalJSONTo_type_member [OF h] h show ?thesis by simp
qed

text \<open>
  The claim C1 itself fails on its own example: the encoding of \<^verbatim>\<open>Details{Title: "T"}\<close> is
  the object \<^verbatim>\<open>{"title":"T"}\<close>, with no member \<^verbatim>\<open>type\<close>.
\<close>

theorem empty_type_counterexample:
  "json_Marshal [] (Details [] 0 ''T'' [] [] None None)
     = Ok [ObjectStart, StringToken ''title'', StringToken ''T'', ObjectEnd]
   \<and> document [ObjectStart, StringToken ''title'', StringToken ''T'', ObjectEnd]
     = Some (JObject [(''title'', JString ''T'')])
   \<and> map_of [(''title'', JString ''T'')] ''type'' \<noteq> Some (JString ''about:blank'')"
  by code_simp

text \<open>
  Claim C2. Whenever the encoding succeeds, what was written is one object in which
  each of the names \<^verbatim>\<open>type\<close>, \<^verbatim>\<open>status\<close>, \<^verbatim>\<open>title\<close>, \<^verbatim>\<open>detail\<close>, \<^verbatim>\<open>instance\<close> occurs only as
  the member of the struct field: once, with the value of the field, when the field is
  not empty or zero, and not at all when it is, whatever the extensions map holds
  under that name.
\<close>

theorem MarshalJSONTo_reserved_members:
  assumes "MarshalJSONTo h d enc = Ok enc'"
  shows "\<exists>ts ms. enc' = enc @ ts \<and> document ts = Some (JObject ms)
          \<and> [j. (k, j) \<leftarrow> ms, k = ''type''] = (if Type d = [] then [] else [JString (Type d)])
          \<and> [j. (k, j) \<leftarrow> ms, k = ''status''] =
              (if Status d = 0 then [] else [JNumber (of_int (sint (Status d)))])
          \<and> [j. (k, j) \<leftarrow> ms, k = ''title''] = (if Title d = [] then [] else [JString (Title d)])
          \<and> [j. (k, j) \<leftarrow> ms, k = ''detail''] = (if Detail d = [] then [] else [JString (Detail d)])
          \<and> [j. (k, j) \<leftarrow> ms, k = ''instance''] =
              (if Instance d = [] then [] else [JString (Instance d)])"
proof -
  from MarshalJSONTo_document [OF assms] obtain ts xs where
    ts: "enc' = enc @ ts"
    and doc: "document ts = Some (JObject
               ((if Type d \<noteq> [] then [(''type'', JString (Type d))] else [])
              @ (if Status d \<noteq> 0 then [(''status'', JNumber (of_int (sint (Status d))))] else [])
              @ (if Title d \<noteq> [] then [(''title'', JString (Title d))] else [])
              @ (if Detail d \<noteq> [] then [(''detail'', JString (Detail d))] else [])
              @ (if Instance d \<noteq> [] then [(''instance'', JString (Instance d))] else [])
              @ xs))"
    and keys: "map fst xs = filter (\<lambda>k. \<not> reserved k) (map fst (entries (deref h (Extensions d))))"
    by blast
  have r: "reserved ''type''" "reserved ''status''" "reserved ''title''" "reserved ''detail''"
    "reserved ''instance''"
    by (simp_all add: reserved_def)
  note x = r [THEN not_reserved_filter, OF keys]
  show ?thesis
    apply (intro exI conjI)
          apply (rule ts)
         apply (rule doc)
    using x by (simp_all del: map_eq_conv)
qed

text \<open>
  The test \<^verbatim>\<open>Conflicting extension keys\<close>, with one more extension: \<^verbatim>\<open>Instance\<close> is empty
  and the extension \<^verbatim>\<open>instance\<close> does not fill it.
\<close>

theorem MarshalJSONTo_reserved_members_witness:
  "MarshalJSONTo
     [[(''type'', AString ''about:blank''), (''title'', AString ''I am a teapot''),
       (''status'', AInt 418), (''detail'', AString ''I am a teapot''),
       (''instance'', AString ''/428''), (''balance'', AInt 30)]]
     (Details ''https://example.com/probs/out-of-credit'' 403 ''You do not have enough credit.''
        [] [] (Some 0) None) []
   = Ok [ObjectStart,
         StringToken ''type'', StringToken ''https://example.com/probs/out-of-credit'',
         StringToken ''status'', IntToken 403,
         StringToken ''title'', StringToken ''You do not have enough credit.'',
         StringToken ''balance'', ValueTokens (JNumber 30),
         ObjectEnd]
   \<and> (\<exists>ms. document [ObjectStart,
         StringToken ''type'', StringToken ''https://example.com/probs/out-of-credit'',
         StringToken ''status'', IntToken 403,
         StringToken ''title'', StringToken ''You do not have enough credit.'',
         StringToken ''balance'', ValueTokens (JNumber 30),
         ObjectEnd] = Some (JObject ms)
       \<and> [j. (k, j) \<leftarrow> ms, k = ''type''] = [JString ''https://example.com/probs/out-of-credit'']
       \<and> [j. (k, j) \<leftarrow> ms, k = ''status''] = [JNumber 403]
       \<and> [j. (k, j) \<leftarrow> ms, k = ''detail''] = []
       \<and> [j. (k, j) \<leftarrow> ms, k = ''instance''] = [])"
proof -
  let ?h = "[[(''type'', AString ''about:blank''), (''title'', AString ''I am a teapot''),
       (''status'', AInt 418), (''detail'', AString ''I am a teapot''),
       (''instance'', AString ''/428''), (''balance'', AInt 30)]]"
  let ?d = "Details ''https://example.com/probs/out-of-credit'' 403
       ''You do not have enough credit.'' [] [] (Some 0) None"
  let ?ts = "[ObjectStart,
         StringToken ''type'', StringToken ''https://example.com/probs/out-of-credit'',
         StringToken ''status'', IntToken 403,
         StringToken ''title'', StringToken ''You do not have enough credit.'',
         StringToken ''balance'', ValueTokens (JNumber 30),
         ObjectEnd]"
  have h: "MarshalJSONTo ?h ?d [] = Ok ?ts"
    by code_simp
  from MarshalJSONTo_reserved_members [OF h] obtain ts ms where
    "?ts = [] @ ts" "document ts = Some (JObject ms)"
    "[j. (k, j) \<leftarrow> ms, k = ''type''] = [JString ''https://example.com/probs/out-of-credit'']"
    "[j. (k, j) \<leftarrow> ms, k = ''status''] = [JNumber 403]"
    "[j. (k, j) \<leftarrow> ms, k = ''detail''] = []"
    "[j. (k, j) \<leftarrow> ms, k = ''instance''] = []"
    by auto
  with h show ?thesis by (intro conjI exI [of _ ms]) simp_all
qed

section \<open>Claims about matching\<close>

text \<open>
  Claim C6. \<^verbatim>\<open>Is(err, t)\<close> is true exactly when \<^verbatim>\<open>errors.As\<close> obtains a \<^verbatim>\<open>*Details\<close> from
  \<^verbatim>\<open>err\<close> and each of \<^verbatim>\<open>t.URI\<close>, \<^verbatim>\<open>t.Title\<close>, \<^verbatim>\<open>t.Status\<close> that is not empty or zero equals the
  field of the \<^verbatim>\<open>Details\<close>, an empty \<^verbatim>\<open>Type\<close> standing for \<^verbatim>\<open>about:blank\<close>. A type with the three
  fields empty matches every \<^verbatim>\<open>Details\<close> obtained; \<^verbatim>\<open>Is\<close> is false when none is obtained;
  the extensions of neither side matter.
\<close>

theorem Is_matches:
  "(Is err t \<longleftrightarrow>
      (\<exists>d. errors_As_opt err = Some d
         \<and> (URI t = [] \<or> URI t = (if Type d = [] then ''about:blank'' else Type d))
         \<and> (TypeTitle t = [] \<or> TypeTitle t = Title d)
         \<and> (TypeStatus t = 0 \<or> TypeStatus t = Status d)))
   \<and> (errors_As_opt err = Some d \<longrightarrow>
        Is err \<lparr>URI = [], TypeTitle = [], TypeStatus = 0, TypeExtensions = x\<rparr>)
   \<and> (errors_As_opt err = None \<longrightarrow> \<not> Is err t)
   \<and> Is (Some (ErrDetails (set_Extensions y d))) (t\<lparr>TypeExtensions := x\<rparr>)
       = Is (Some (ErrDetails d)) t"
  by (auto simp: Is_def cmp_Or_def AboutBlankTypeURI_def set_Extensions_def split: option.splits)

text \<open>
  The wrapped teapot of the tests against the empty type, an error that is no
  \<^verbatim>\<open>Details\<close>, and the empty \<^verbatim>\<open>Type\<close> against \<^verbatim>\<open>about:blank\<close>.
\<close>

theorem Is_matches_witness:
  "errors_As_opt (Some (ErrWrap [] (Some (ErrDetails (Details [] 418 ''I am a teapot'' [] [] None None)))))
     = Some (Details [] 418 ''I am a teapot'' [] [] None None)
   \<and> Is (Some (ErrWrap [] (Some (ErrDetails (Details [] 418 ''I am a teapot'' [] [] None None)))))
        \<lparr>URI = [], TypeTitle = [], TypeStatus = 0, TypeExtensions = None\<rparr>
   \<and> errors_As_opt (Some (ErrWrap ''EOF'' None)) = None
   \<and> \<not> Is (Some (ErrWrap ''EOF'' None)) \<lparr>URI = [], TypeTitle = [], TypeStatus = 0, TypeExtensions = None\<rparr>
   \<and> Is (Some (ErrDetails (Details [] 418 ''I am a teapot'' [] [] None None)))
        \<lparr>URI = ''about:blank'', TypeTitle = [], TypeStatus = 418, TypeExtensions = None\<rparr>"
proof -
  let ?d = "Details [] 418 ''I am a teapot'' [] [] None None"
  let ?w = "Some (ErrWrap [] (Some (ErrDetails ?d)))"
  let ?e = "\<lparr>URI = [], TypeTitle = [], TypeStatus = 0, TypeExtensions = None\<rparr>"
  have a: "errors_As_opt ?w = Some ?d" by simp
  have b: "errors_As_opt (Some (ErrWrap ''EOF'' None)) = None" by simp
  have c: "errors_As_opt (Some (ErrDetails ?d)) = Some ?d" by simp
  from Is_matches [of ?w _ ?d None] a have 1: "Is ?w ?e" by blast
  from Is_matches [of "Some (ErrWrap ''EOF'' None)" ?e] b
  have 2: "\<not> Is (Some (ErrWrap ''EOF'' None)) ?e"
    by blast
  have 3: "Is (Some (ErrDetails ?d))
             \<lparr>URI = ''about:blank'', TypeTitle = [], TypeStatus = 418, TypeExtensions = None\<rparr>"
    using Is_matches [of "Some (ErrDetails ?d)"
        "\<lparr>URI = ''about:blank'', TypeTitle = [], TypeStatus = 418, TypeExtensions = None\<rparr>"] c
    by simp
  from a b 1 2 3 show ?thesis by blast
qed

section \<open>Claims about decoding\<close>

text \<open>
  Claim C3, as amended. The claim is that every \<^verbatim>\<open>Details\<close> with only the five fixed
  fields set survives \<^verbatim>\<open>MarshalJSONTo\<close> followed by \<^verbatim>\<open>UnmarshalJSONFrom\<close>. The status is
  written as an integer literal and read back as a \<^verbatim>\<open>float64\<close>, and the encoder rejects a
  string that is not UTF-8. What holds: when the four strings are valid UTF-8 and the
  status is at most \<open>2 ^ 53\<close> in magnitude, encoding succeeds, and decoding what was
  written into a zero \<^verbatim>\<open>Details\<close> succeeds and gives the five fields back, with
  \<^verbatim>\<open>Extensions\<close> and \<^verbatim>\<open>Underlying\<close> nil and nothing added to the store.
\<close>

theorem roundtrip_fixed_fields:
  assumes "utf8_valid (Type d)" "utf8_valid (Title d)" "utf8_valid (Detail d)"
    "utf8_valid (Instance d)"
    and "\<bar>sint (Status d)\<bar> \<le> 2 ^ 53"
    and "entries (deref h (Extensions d)) = []"
  shows "\<exists>ts j. json_Marshal h d = Ok ts \<and> document ts = Some j
          \<and> UnmarshalJSONFrom ovf (Document j) h' (Details [] 0 [] [] [] None None)
              = Inr (h', Details (Type d) (Status d) (Title d) (Detail d) (Instance d) None None)"
proof -
  let ?z = "Details [] 0 [] [] [] None None"
  let ?K = "map (\<lambda>(k, j). (k, delivered j)) (fixed_members d)"
  from MarshalJSONTo_fixed_document [OF assms(1-4) assms(6)] obtain ts where
    ts: "json_Marshal h d = Ok ts" and doc: "document ts = Some (JObject (fixed_members d))"
    by blast
  have dec: "UnmarshalDecode (Document (JObject (fixed_members d))) = Inr (Some ?K)"
    using fixed_members_delivered [OF assms(1-5)] by (simp add: UnmarshalDecode_def)
  have ex: "float64_round (of_int (sint (Status d))) = of_int (sint (Status d))"
    using float64_of_int_exact [OF assms(5)] by (simp only: float64_of_int_def)
  have st: "float64_of_int (sint (int_of_float64 ovf (of_int (sint (Status d))))) = of_int (sint (Status d))"
    unfolding int_of_float64_sint using ex by (simp only: float64_of_int_def)
  have del: "delete (delete (delete (delete (delete (Some ?K) ''type'') ''status'') ''title'') ''detail'') ''instance''
               = Some []"
  proof -
    have "\<forall>k \<in> fst ` set ?K. reserved k"
      using fixed_members_reserved [of d] by force
    from delete_reserved [OF this] show ?thesis by (simp add: delete_def)
  qed
  from UnmarshalJSONFrom_fields [OF dec, of ovf h' ?z] obtain h'' d' where
    r: "UnmarshalJSONFrom ovf (Document (JObject (fixed_members d))) h' ?z = Inr (h'', d')"
    and f1: "Type d' = (case index (Some ?K) ''type'' of Some (AString v) \<Rightarrow> v | _ \<Rightarrow> Type ?z)"
    and f2: "Status d' = (case index (Some ?K) ''status'' of
          Some (AFloat64 v) \<Rightarrow>
            if float64_of_int (sint (int_of_float64 ovf v)) = v then int_of_float64 ovf v else Status ?z
        | _ \<Rightarrow> Status ?z)"
    and f3: "Title d' = (case index (Some ?K) ''title'' of Some (AString v) \<Rightarrow> v | _ \<Rightarrow> Title ?z)"
    and f4: "Detail d' = (case index (Some ?K) ''detail'' of Some (AString v) \<Rightarrow> v | _ \<Rightarrow> Detail ?z)"
    and f5: "Instance d' = (case index (Some ?K) ''instance'' of Some (AString v) \<Rightarrow> v | _ \<Rightarrow> Instance ?z)"
    and f6: "Underlying d' = Underlying ?z"
    and f7: "(let m' = delete (delete (delete (delete (delete (Some ?K) ''type'') ''status'') ''title'') ''detail'') ''instance''
       in if len m' \<noteq> 0 then h'' = h' @ [entries m'] \<and> Extensions d' = Some (length h')
          else h'' = h' \<and> Extensions d' = Extensions ?z)"
    by blast
  have 1: "Type d' = Type d"
    unfolding f1 delivered_lookup fixed_members_lookup by (simp add: delivered_def)
  have 2: "Status d' = Status d"
    unfolding f2 delivered_lookup fixed_members_lookup
    using st ex int_of_float64_sint [of ovf "Status d"]
    by (simp add: delivered_def del: of_int_sint)
  have 3: "Title d' = Title d"
    unfolding f3 delivered_lookup fixed_members_lookup by (simp add: delivered_def)
  have 4: "Detail d' = Detail d"
    unfolding f4 delivered_lookup fixed_members_lookup by (simp add: delivered_def)
  have 5: "Instance d' = Instance d"
    unfolding f5 delivered_lookup fixed_members_lookup by (simp add: delivered_def)
  have 6: "Underlying d' = None" using f6 by simp
  have 7: "h'' = h' \<and> Extensions d' = None"
    using f7 unfolding del by (simp add: len_def entries_def)
  have "d' = Details (Type d) (Status d) (Title d) (Detail d) (Instance d) None None"
    using 1 2 3 4 5 6 7 by (cases d') simp
  with r 7 ts doc show ?thesis by blast
qed

text \<open>The \<^verbatim>\<open>Full\<close> value of the tests, without its extensions.\<close>

theorem roundtrip_fixed_fields_witness:
  "utf8_valid ''https://example.com/probs/out-of-credit''
   \<and> utf8_valid ''You do not have enough credit.''
   \<and> utf8_valid ''Your current balance is 30, but that costs 50.''
   \<and> utf8_valid ''/account/12345/msgs/abc''
   \<and> \<bar>sint (403 :: go_int)\<bar> \<le> 2 ^ 53
   \<and> (\<exists>ts j. json_Marshal []
          (Details ''https://example.com/probs/out-of-credit'' 403 ''You do not have enough credit.''
             ''Your current balance is 30, but that costs 50.'' ''/account/12345/msgs/abc'' None None)
          = Ok ts \<and> document ts = Some j
        \<and> UnmarshalJSONFrom amd64_overflow (Document j) [] (Details [] 0 [] [] [] None None)
          = Inr ([], Details ''https://example.com/probs/out-of-credit'' 403
                   ''You do not have enough credit.''
                   ''Your current balance is 30, but that costs 50.'' ''/account/12345/msgs/abc''
                   None None))"
proof -
  let ?d = "Details ''https://example.com/probs/out-of-credit'' 403 ''You do not have enough credit.''
             ''Your current balance is 30, but that costs 50.'' ''/account/12345/msgs/abc'' None None"
  have v: "utf8_valid ''https://example.com/probs/out-of-credit''"
    "utf8_valid ''You do not have enough credit.''"
    "utf8_valid ''Your current balance is 30, but that costs 50.''"
    "utf8_valid ''/account/12345/msgs/abc''"
    by code_simp+
  have s: "\<bar>sint (403 :: go_int)\<bar> \<le> 2 ^ 53" by simp
  have e: "entries (deref [] (Extensions ?d)) = []" by (simp add: entries_def deref_def)
  from roundtrip_fixed_fields [of ?d "[]" amd64_overflow "[]"] v s e
  show ?thesis by simp
qed

text \<open>
  The claim C3 itself fails at the status \<open>2 ^ 53 + 1\<close>: the literal
  \<^verbatim>\<open>9007199254740993\<close> is read back as the \<^verbatim>\<open>float64\<close> \<open>2 ^ 53\<close>, which passes the test
  \<^verbatim>\<open>float64(int(v)) == v\<close>, and the decoded status is \<open>2 ^ 53\<close>.
\<close>

theorem roundtrip_large_status_counterexample:
  "json_Marshal [] (Details [] 9007199254740993 [] [] [] None None)
     = Ok [ObjectStart, StringToken ''status'', IntToken 9007199254740993, ObjectEnd]
   \<and> document [ObjectStart, StringToken ''status'', IntToken 9007199254740993, ObjectEnd]
     = Some (JObject [(''status'', JNumber 9007199254740993)])
   \<and> UnmarshalJSONFrom amd64_overflow (Document (JObject [(''status'', JNumber 9007199254740993)])) []
        (Details [] 0 [] [] [] None None)
     = Inr ([], Details [] 9007199254740992 [] [] [] None None)
   \<and> (9007199254740992 :: go_int) \<noteq> 9007199254740993"
  by code_simp

text \<open>
  Claim C4, as amended. The claim is that \<^verbatim>\<open>UnmarshalJSONFrom\<close> returns an error for every
  input that is not a JSON text or whose value is not an object, \<^verbatim>\<open>null\<close> included. The
  library decodes \<^verbatim>\<open>null\<close> into a map as the nil map, without an error. What holds: input
  that is not a JSON text, and a boolean, a number, a string or an array, make
  \<^verbatim>\<open>UnmarshalJSONFrom\<close> return an error; for \<^verbatim>\<open>null\<close> it returns nil and leaves the receiver
  and the store as they were.
\<close>

theorem UnmarshalJSONFrom_not_object:
  "(dec = Malformed \<or> dec = Document (JBool b) \<or> dec = Document (JNumber q)
      \<or> dec = Document (JString s) \<or> dec = Document (JArray js)
     \<longrightarrow> (\<exists>err. UnmarshalJSONFrom ovf dec h d = Inl err))
   \<and> UnmarshalJSONFrom ovf (Document JNull) h d = Inr (h, d)"
  using UnmarshalDecode_not_object [of dec b q s js] UnmarshalJSONFrom_error [of dec _ ovf h d]
    UnmarshalJSONFrom_null [of ovf h d]
  by blast

text \<open>The response \<^verbatim>\<open>invalid\<close> of the tests, and an array.\<close>

theorem UnmarshalJSONFrom_not_object_witness:
  "(\<exists>err. UnmarshalJSONFrom amd64_overflow Malformed [] (Details [] 0 [] [] [] None None) = Inl err)
   \<and> (\<exists>err. UnmarshalJSONFrom amd64_overflow (Document (JArray [JString ''type''])) []
               (Details [] 0 [] [] [] None None) = Inl err)"
  using UnmarshalJSONFrom_not_object [where dec = Malformed and ovf = amd64_overflow and h = "[]"
      and d = "Details [] 0 [] [] [] None None"]
    UnmarshalJSONFrom_not_object [where dec = "Document (JArray [JString ''type''])"
      and js = "[JString ''type'']" and ovf = amd64_overflow and h = "[]"
      and d = "Details [] 0 [] [] [] None None"]
  by simp

text \<open>The claim C4 itself fails at \<^verbatim>\<open>null\<close>: the call succeeds.\<close>

theorem null_counterexample:
  "UnmarshalJSONFrom amd64_overflow (Document JNull) [] (Details [] 0 [] [] [] None None)
     = Inr ([], Details [] 0 [] [] [] None None)"
  by code_simp

text \<open>
  Claim C5, as amended. The claim is that \<^verbatim>\<open>UnmarshalJSONFrom\<close> succeeds on every object
  with a reserved member of the wrong type. The library, in its default configuration,
  rejects an object that has the same name twice, a string that is not UTF-8 or a
  number beyond the range of \<^verbatim>\<open>float64\<close>, and \<^verbatim>\<open>UnmarshalJSONFrom\<close> returns that error. What
  holds: for every object free of these three defects the call returns no error, and a
  reserved member of the wrong type is ignored: when \<^verbatim>\<open>type\<close> (\<^verbatim>\<open>title\<close>, \<^verbatim>\<open>detail\<close>,
  \<^verbatim>\<open>instance\<close>) is not a string the field keeps the value it had, and so does \<^verbatim>\<open>Status\<close>
  when \<^verbatim>\<open>status\<close> is not a number or is a number whose \<^verbatim>\<open>float64\<close> is not an integer. The
  value it had is the zero value for a new \<^verbatim>\<open>Details\<close>. For an object with one of the
  defects the call returns an error.
\<close>

theorem UnmarshalJSONFrom_wrong_type:
  "(accepted_object ms \<longrightarrow>
      (\<exists>h' d'. UnmarshalJSONFrom ovf (Document (JObject ms)) h d = Inr (h', d')
        \<and> ((\<forall>s. map_of ms ''type'' \<noteq> Some (JString s)) \<longrightarrow> Type d' = Type d)
        \<and> ((\<forall>q. map_of ms ''status'' = Some (JNumber q) \<longrightarrow> float64_round q \<notin> \<int>)
             \<longrightarrow> Status d' = Status d)
        \<and> ((\<forall>s. map_of ms ''title'' \<noteq> Some (JString s)) \<longrightarrow> Title d' = Title d)
        \<and> ((\<forall>s. map_of ms ''detail'' \<noteq> Some (JString s)) \<longrightarrow> Detail d' = Detail d)
        \<and> ((\<forall>s. map_of ms ''instance'' \<noteq> Some (JString s)) \<longrightarrow> Instance d' = Instance d)))
   \<and> (\<not> accepted_object ms \<longrightarrow>
        (\<exists>err. UnmarshalJSONFrom ovf (Document (JObject ms)) h d = Inl err))"
proof (intro conjI impI)
  assume "accepted_object ms"
  then obtain kvs where "unmarshal_object ms = Inr kvs"
    using unmarshal_accepted(3) [of ms] by blast
  from wrong_type_ignored [OF this]
  show "\<exists>h' d'. UnmarshalJSONFrom ovf (Document (JObject ms)) h d = Inr (h', d')
        \<and> ((\<forall>s. map_of ms ''type'' \<noteq> Some (JString s)) \<longrightarrow> Type d' = Type d)
        \<and> ((\<forall>q. map_of ms ''status'' = Some (JNumber q) \<longrightarrow> float64_round q \<notin> \<int>)
             \<longrightarrow> Status d' = Status d)
        \<and> ((\<forall>s. map_of ms ''title'' \<noteq> Some (JString s)) \<longrightarrow> Title d' = Title d)
        \<and> ((\<forall>s. map_of ms ''detail'' \<noteq> Some (JString s)) \<longrightarrow> Detail d' = Detail d)
        \<and> ((\<forall>s. map_of ms ''instance'' \<noteq> Some (JString s)) \<longrightarrow> Instance d' = Instance d)"
    .
next
  assume "\<not> accepted_object ms"
  from unmarshal_object_rejected [OF this] obtain err where "unmarshal_object ms = Inl err"
    by blast
  then have "UnmarshalDecode (Document (JObject ms)) = Inl err"
    by (simp add: UnmarshalDecode_def)
  from UnmarshalJSONFrom_error [OF this]
  show "\<exists>err. UnmarshalJSONFrom ovf (Document (JObject ms)) h d = Inl err"
    by blast
qed

text \<open>
  The test \<^verbatim>\<open>Wrong types\<close>, and the status \<^verbatim>\<open>403.5\<close> decoded into a \<^verbatim>\<open>Details\<close> whose status
  is 500.
\<close>

theorem UnmarshalJSONFrom_wrong_type_witness:
  "accepted_object
     [(''type'', JBool True), (''title'', JBool False), (''status'', JString ''403''),
      (''detail'', JNumber 1), (''instance'', JArray [JString ''/account/12345/msgs/abc''])]
   \<and> (\<exists>h' d'. UnmarshalJSONFrom amd64_overflow (Document (JObject
     [(''type'', JBool True), (''title'', JBool False), (''status'', JString ''403''),
      (''detail'', JNumber 1), (''instance'', JArray [JString ''/account/12345/msgs/abc''])])) []
        (Details [] 0 [] [] [] None None) = Inr (h', d')
      \<and> Type d' = [] \<and> Status d' = 0 \<and> Title d' = [] \<and> Detail d' = [] \<and> Instance d' = [])
   \<and> accepted_object [(''status'', JNumber (807 / 2))]
   \<and> (\<exists>h' d'. UnmarshalJSONFrom amd64_overflow (Document (JObject [(''status'', JNumber (807 / 2))])) []
        (Details [] 500 [] [] [] None None) = Inr (h', d') \<and> Status d' = 500)"
proof -
  let ?ms = "[(''type'', JBool True), (''title'', JBool False), (''status'', JString ''403''),
      (''detail'', JNumber 1), (''instance'', JArray [JString ''/account/12345/msgs/abc''])]"
  have a: "accepted_object ?ms"
    by code_simp
  have b: "accepted_object [(''status'', JNumber (807 / 2))]"
    by code_simp
  have r: "float64_round (807 / 2) = 807 / 2"
    by code_simp
  have n: "(807 / 2 :: rat) \<notin> \<int>"
  proof
    assume "(807 / 2 :: rat) \<in> \<int>"
    then obtain z :: int where "(807 / 2 :: rat) = of_int z" by (auto elim: Ints_cases)
    then have "(807 :: rat) = of_int (2 * z)" by simp
    then have "(807 :: int) = 2 * z" by (metis of_int_eq_iff of_int_numeral)
    then show False by presburger
  qed
  from UnmarshalJSONFrom_wrong_type [of ?ms amd64_overflow "[]" "Details [] 0 [] [] [] None None"] a
  have 1: "\<exists>h' d'. UnmarshalJSONFrom amd64_overflow (Document (JObject ?ms)) []
        (Details [] 0 [] [] [] None None) = Inr (h', d')
      \<and> Type d' = [] \<and> Status d' = 0 \<and> Title d' = [] \<and> Detail d' = [] \<and> Instance d' = []"
    by simp
  have hyp: "\<forall>q. map_of [(''status'', JNumber (807 / 2))] ''status'' = Some (JNumber q)
               \<longrightarrow> float64_round q \<notin> \<int>"
  proof (intro allI impI)
    fix q
    assume "map_of [(''status'', JNumber (807 / 2))] ''status'' = Some (JNumber q)"
    then have q: "q = 807 / 2" by simp
    show "float64_round q \<notin> \<int>" unfolding q r by (rule n)
  qed
  from UnmarshalJSONFrom_wrong_type [of "[(''status'', JNumber (807 / 2))]" amd64_overflow "[]"
      "Details [] 500 [] [] [] None None"] b
  obtain h' d' where
    "UnmarshalJSONFrom amd64_overflow (Document (JObject [(''status'', JNumber (807 / 2))])) []
        (Details [] 500 [] [] [] None None) = Inr (h', d')"
    and "(\<forall>q. map_of [(''status'', JNumber (807 / 2))] ''status'' = Some (JNumber q)
               \<longrightarrow> float64_round q \<notin> \<int>) \<longrightarrow> Status d' = Status (Details [] 500 [] [] [] None None)"
    by blast
  with hyp
  have 2: "\<exists>h' d'. UnmarshalJSONFrom amd64_overflow (Document (JObject [(''status'', JNumber (807 / 2))])) []
        (Details [] 500 [] [] [] None None) = Inr (h', d') \<and> Status d' = 500"
    by (intro exI [of _ h'] exI [of _ d']) simp
  from a b 1 2 show ?thesis by blast
qed

text \<open>
  The claim C5 itself fails at \<^verbatim>\<open>{"status":"403","status":"404"}\<close>: the member \<^verbatim>\<open>status\<close> is
  a string, and the call returns the error of the duplicate name.
\<close>

theorem duplicate_name_counterexample:
  "UnmarshalJSONFrom amd64_overflow
     (Document (JObject [(''status'', JString ''403''), (''status'', JString ''404'')])) []
     (Details [] 0 [] [] [] None None)
   = Inl DuplicateName"
  by code_simp

section \<open>Claims about serving\<close>

text \<open>
  Claim C8. When the encoding of a \<^verbatim>\<open>Details\<close> fails, \<^verbatim>\<open>ServeHTTP\<close> panics: with the error
  when \<^verbatim>\<open>json.Marshal\<close> returned one, with the panic of the value's own \<^verbatim>\<open>MarshalJSON\<close> when
  that panicked. It returns no error, and the response writer is as it was: no header
  deleted or set, no status code and no body written.
\<close>

theorem ServeHTTP_encoding_fails:
  "(json_Marshal h d = Err e \<longrightarrow>
      ServeHTTP h d w = (Panicked (PanicError (ErrWrap (error_text e) None)), w))
   \<and> (json_Marshal h d = Panic p \<longrightarrow> ServeHTTP h d w = (Panicked p, w))
   \<and> ((\<forall>b. json_Marshal h d \<noteq> Ok b) \<longrightarrow> (\<exists>v. ServeHTTP h d w = (Panicked v, w)))"
proof (intro conjI impI)
  assume "json_Marshal h d = Err e"
  then show "ServeHTTP h d w = (Panicked (PanicError (ErrWrap (error_text e) None)), w)"
    by (rule ServeHTTP_Err)
next
  assume "json_Marshal h d = Panic p"
  then show "ServeHTTP h d w = (Panicked p, w)"
    by (rule ServeHTTP_Panic)
next
  assume n: "\<forall>b. json_Marshal h d \<noteq> Ok b"
  show "\<exists>v. ServeHTTP h d w = (Panicked v, w)"
  proof (cases "json_Marshal h d")
    case (Ok b)
    with n show ?thesis by simp
  next
    case (Err e)
    then show ?thesis using ServeHTTP_Err by blast
  next
    case (Panic p)
    then show ?thesis using ServeHTTP_Panic by blast
  qed
qed

text \<open>
  The test \<^verbatim>\<open>Panic\<close>, with its two headers, and a title that is not UTF-8, for which
  \<^verbatim>\<open>json.Marshal\<close> returns an error.
\<close>

theorem ServeHTTP_encoding_fails_witness:
  "json_Marshal [[(''invalid'', AMarshaler (Panics (PanicValue ''MarshalJSON called'')))]]
     (Details [] 0 [] [] [] (Some 0) None) = Panic (PanicValue ''MarshalJSON called'')
   \<and> ServeHTTP [[(''invalid'', AMarshaler (Panics (PanicValue ''MarshalJSON called'')))]]
       (Details [] 0 [] [] [] (Some 0) None)
       \<lparr>Header = [(''Content-Length'', [''1337'']), (''Content-Type'', [''application/xml''])],
        calls = []\<rparr>
     = (Panicked (PanicValue ''MarshalJSON called''),
        \<lparr>Header = [(''Content-Length'', [''1337'']), (''Content-Type'', [''application/xml''])],
         calls = []\<rparr>)
   \<and> json_Marshal [] (Details [] 0 [CHR 0xFF] [] [] None None) = Err InvalidUTF8
   \<and> (\<exists>v. ServeHTTP [] (Details [] 0 [CHR 0xFF] [] [] None None) \<lparr>Header = [], calls = []\<rparr>
          = (Panicked v, \<lparr>Header = [], calls = []\<rparr>))"
proof -
  let ?h = "[[(''invalid'', AMarshaler (Panics (PanicValue ''MarshalJSON called'')))]]"
  let ?d = "Details [] 0 [] [] [] (Some 0) None"
  have a: "json_Marshal ?h ?d = Panic (PanicValue ''MarshalJSON called'')"
    by code_simp
  have b: "json_Marshal [] (Details [] 0 [CHR 0xFF] [] [] None None) = Err InvalidUTF8"
    by code_simp
  from a b
    ServeHTTP_encoding_fails [of ?h ?d _ _ "PanicValue ''MarshalJSON called''"]
    ServeHTTP_encoding_fails [of "[]" "Details [] 0 [CHR 0xFF] [] [] None None" InvalidUTF8]
  show ?thesis by simp
qed

text \<open>
  Claim C9. When the encoding of a \<^verbatim>\<open>Details\<close> succeeds, \<^verbatim>\<open>ServeHTTP\<close> returns, having
  deleted the header \<^verbatim>\<open>Content-Length\<close>, set \<^verbatim>\<open>Content-Type\<close> to \<^verbatim>\<open>application/problem+json\<close>
  and \<^verbatim>\<open>X-Content-Type-Options\<close> to \<^verbatim>\<open>nosniff\<close>, and having called, after the calls made
  before, \<^verbatim>\<open>WriteHeader\<close> with \<^verbatim>\<open>Status\<close>, or with 500 when \<^verbatim>\<open>Status\<close> is zero, and then \<^verbatim>\<open>Write\<close>
  with what \<^verbatim>\<open>json.Marshal\<close> returned, which is one JSON object.
\<close>

theorem ServeHTTP_serves:
  assumes "json_Marshal h d = Ok b"
  shows "\<exists>w'. ServeHTTP h d w = (Returned, w')
     \<and> Header w' = AList.update ''X-Content-Type-Options'' [''nosniff'']
                 (AList.update ''Content-Type'' [''application/problem+json'']
                   (AList.delete ''Content-Length'' (Header w)))
     \<and> map_of (Header w') ''Content-Length'' = None
     \<and> Header_Get w' ''Content-Type'' = ''application/problem+json''
     \<and> Header_Get w' ''X-Content-Type-Options'' = ''nosniff''
     \<and> calls w' = calls w @ [CallWriteHeader (if Status d \<noteq> 0 then Status d else 500),
                              CallWrite (Serialized b)]
     \<and> (\<exists>ms. document b = Some (JObject ms))"
proof -
  let ?w = "\<lparr>Header = AList.update ''X-Content-Type-Options'' [''nosniff'']
                 (AList.update ''Content-Type'' [''application/problem+json'']
                   (AList.delete ''Content-Length'' (Header w))),
       calls = calls w @ [CallWriteHeader (if Status d \<noteq> 0 then Status d else 500),
                          CallWrite (Serialized b)]\<rparr>"
  have 1: "ServeHTTP h d w = (Returned, ?w)" by (rule ServeHTTP_Ok [OF assms])
  have 2: "map_of (Header ?w) ''Content-Length'' = None"
    by (simp add: update_conv' delete_conv')
  have 3: "Header_Get ?w ''Content-Type'' = ''application/problem+json''"
    "Header_Get ?w ''X-Content-Type-Options'' = ''nosniff''"
    by (simp_all add: Header_Get_def update_conv')
  from 1 2 3 json_Marshal_document [OF assms] show ?thesis
    by (intro exI [of _ ?w]) simp
qed

text \<open>
  The example of the specification, on a response writer with the two headers of the
  tests, and a \<^verbatim>\<open>Details\<close> without a status.
\<close>

theorem ServeHTTP_serves_witness:
  "json_Marshal [] (Details ''https://x/y'' 403 ''T'' [] [] None None)
     = Ok [ObjectStart, StringToken ''type'', StringToken ''https://x/y'',
           StringToken ''status'', IntToken 403, StringToken ''title'', StringToken ''T'', ObjectEnd]
   \<and> (\<exists>w'. ServeHTTP [] (Details ''https://x/y'' 403 ''T'' [] [] None None)
              \<lparr>Header = [(''Content-Length'', [''1337'']), (''Content-Type'', [''application/xml''])],
               calls = []\<rparr> = (Returned, w')
         \<and> Header w' = [(''Content-Type'', [''application/problem+json'']),
                         (''X-Content-Type-Options'', [''nosniff''])]
         \<and> calls w' = [CallWriteHeader 403,
                        CallWrite (Serialized [ObjectStart,
                          StringToken ''type'', StringToken ''https://x/y'',
                          StringToken ''status'', IntToken 403,
                          StringToken ''title'', StringToken ''T'', ObjectEnd])])
   \<and> json_Marshal [] (Details [] 0 ''T'' [] [] None None)
     = Ok [ObjectStart, StringToken ''title'', StringToken ''T'', ObjectEnd]
   \<and> (\<exists>w'. ServeHTTP [] (Details [] 0 ''T'' [] [] None None) \<lparr>Header = [], calls = []\<rparr>
              = (Returned, w')
         \<and> calls w' = [CallWriteHeader 500,
                        CallWrite (Serialized [ObjectStart, StringToken ''title'', StringToken ''T'',
                          ObjectEnd])])"
proof -
  let ?d = "Details ''https://x/y'' 403 ''T'' [] [] None None"
  let ?w = "\<lparr>Header = [(''Content-Length'', [''1337'']), (''Content-Type'', [''application/xml''])],
               calls = []\<rparr>"
  have a: "json_Marshal [] ?d
     = Ok [ObjectStart, StringToken ''type'', StringToken ''https://x/y'',
           StringToken ''status'', IntToken 403, StringToken ''title'', StringToken ''T'', ObjectEnd]"
    by code_simp
  have b: "json_Marshal [] (Details [] 0 ''T'' [] [] None None)
     = Ok [ObjectStart, StringToken ''title'', StringToken ''T'', ObjectEnd]"
    by code_simp
  from ServeHTTP_serves [OF a, of ?w] obtain w1 where
    "ServeHTTP [] ?d ?w = (Returned, w1)"
    "Header w1 = AList.update ''X-Content-Type-Options'' [''nosniff'']
                 (AList.update ''Content-Type'' [''application/problem+json'']
                   (AList.delete ''Content-Length'' (Header ?w)))"
    "calls w1 = calls ?w @ [CallWriteHeader (if Status ?d \<noteq> 0 then Status ?d else 500),
                              CallWrite (Serialized [ObjectStart,
                                StringToken ''type'', StringToken ''https://x/y'',
                                StringToken ''status'', IntToken 403,
                                StringToken ''title'', StringToken ''T'', ObjectEnd])]"
    by blast
  then have 1: "\<exists>w'. ServeHTTP [] ?d ?w = (Returned, w')
         \<and> Header w' = [(''Content-Type'', [''application/problem+json'']),
                         (''X-Content-Type-Options'', [''nosniff''])]
         \<and> calls w' = [CallWriteHeader 403,
                        CallWrite (Serialized [ObjectStart,
                          StringToken ''type'', StringToken ''https://x/y'',
                          StringToken ''status'', IntToken 403,
                          StringToken ''title'', StringToken ''T'', ObjectEnd])]"
    by (intro exI [of _ w1]) (simp add: AList.delete_eq)
  from ServeHTTP_serves [OF b, of "\<lparr>Header = [], calls = []\<rparr>"] obtain w2 where
    "ServeHTTP [] (Details [] 0 ''T'' [] [] None None) \<lparr>Header = [], calls = []\<rparr> = (Returned, w2)"
    "calls w2 = calls \<lparr>Header = [], calls = []\<rparr>
        @ [CallWriteHeader (if Status (Details [] 0 ''T'' [] [] None None) \<noteq> 0
                            then Status (Details [] 0 ''T'' [] [] None None) else 500),
           CallWrite (Serialized [ObjectStart, StringToken ''title'', StringToken ''T'', ObjectEnd])]"
    by blast
  then have 2: "\<exists>w'. ServeHTTP [] (Details [] 0 ''T'' [] [] None None) \<lparr>Header = [], calls = []\<rparr>
              = (Returned, w')
         \<and> calls w' = [CallWriteHeader 500,
                        CallWrite (Serialized [ObjectStart, StringToken ''title'', StringToken ''T'',
                          ObjectEnd])]"
    by (intro exI [of _ w2]) simp
  from a b 1 2 show ?thesis by blast
qed

section \<open>Claims about recovery\<close>

text \<open>
  Claim C10, as amended. The claim is that in every case of a panic a response is
  served and no panic reaches the caller. \<^verbatim>\<open>Handler\<close> serves with \<^verbatim>\<open>ServeHTTP\<close>, which panics
  when the \<^verbatim>\<open>Details\<close> cannot be encoded, and that call is made in the deferred function,
  after the recovery. What holds: when the wrapped handler returns, \<^verbatim>\<open>Handler\<close> leaves the
  response as the handler left it; when it panics with an error from which \<^verbatim>\<open>errors.As\<close>
  obtains a \<^verbatim>\<open>*Details\<close> whose encoding succeeds, that \<^verbatim>\<open>Details\<close> is served, with its
  status and its encoding as the body, and \<^verbatim>\<open>Handler\<close> returns; when it panics with a value
  that is no error or with an error from which no \<^verbatim>\<open>*Details\<close> is obtained,
  \<^verbatim>\<open>InternalServerError\<close> is served, with the status 500 and the title
  \<^verbatim>\<open>Internal Server Error\<close>, and \<^verbatim>\<open>Handler\<close> returns; when the \<^verbatim>\<open>*Details\<close> obtained cannot be
  encoded, \<^verbatim>\<open>Handler\<close> panics and \<^verbatim>\<open>ServeHTTP\<close> has written nothing.
\<close>

theorem Handler_recovers:
  "(next w = (Returned, w') \<longrightarrow> Handler h next w = (Returned, w'))
   \<and> (next w = (Panicked (PanicError err), w') \<and> errors_As err = Some d \<and> json_Marshal h d = Ok b
        \<longrightarrow> Handler h next w =
          (Returned,
           \<lparr>Header = AList.update ''X-Content-Type-Options'' [''nosniff'']
                      (AList.update ''Content-Type'' [''application/problem+json'']
                        (AList.delete ''Content-Length'' (Header w'))),
            calls = calls w' @ [CallWriteHeader (if Status d \<noteq> 0 then Status d else 500),
                                CallWrite (Serialized b)]\<rparr>))
   \<and> (next w = (Panicked v, w') \<and> (v = PanicValue x \<or> v = PanicError err \<and> errors_As err = None)
        \<longrightarrow> Handler h next w =
          (Returned,
           \<lparr>Header = AList.update ''X-Content-Type-Options'' [''nosniff'']
                      (AList.update ''Content-Type'' [''application/problem+json'']
                        (AList.delete ''Content-Length'' (Header w'))),
            calls = calls w' @ [CallWriteHeader 500,
                                CallWrite (Serialized [ObjectStart,
                                  StringToken ''status'', IntToken 500,
                                  StringToken ''title'', StringToken ''Internal Server Error'',
                                  ObjectEnd])]\<rparr>))
   \<and> (next w = (Panicked (PanicError err), w') \<and> errors_As err = Some d
          \<and> (\<forall>b. json_Marshal h d \<noteq> Ok b)
        \<longrightarrow> (\<exists>p. Handler h next w = (Panicked p, w')))"
proof (intro conjI impI; (elim conjE)?)
  assume "next w = (Returned, w')"
  then show "Handler h next w = (Returned, w')" by (rule Handler_Returned)
next
  assume p: "next w = (Panicked (PanicError err), w')" "errors_As err = Some d"
    and m: "json_Marshal h d = Ok b"
  from p have "Handler h next w = ServeHTTP h d w'" by (rule Handler_Details)
  then show "Handler h next w =
          (Returned,
           \<lparr>Header = AList.update ''X-Content-Type-Options'' [''nosniff'']
                      (AList.update ''Content-Type'' [''application/problem+json'']
                        (AList.delete ''Content-Length'' (Header w'))),
            calls = calls w' @ [CallWriteHeader (if Status d \<noteq> 0 then Status d else 500),
                                CallWrite (Serialized b)]\<rparr>)"
    by (simp only: ServeHTTP_Ok [OF m])
next
  assume "next w = (Panicked v, w')" "v = PanicValue x \<or> v = PanicError err \<and> errors_As err = None"
  then have "Handler h next w = ServeHTTP h InternalServerError w'"
    by (rule Handler_InternalServerError)
  moreover have "Status InternalServerError = 500"
    by (simp add: InternalServerError_def StatusInternalServerError_def)
  ultimately show "Handler h next w =
          (Returned,
           \<lparr>Header = AList.update ''X-Content-Type-Options'' [''nosniff'']
                      (AList.update ''Content-Type'' [''application/problem+json'']
                        (AList.delete ''Content-Length'' (Header w'))),
            calls = calls w' @ [CallWriteHeader 500,
                                CallWrite (Serialized [ObjectStart,
                                  StringToken ''status'', IntToken 500,
                                  StringToken ''title'', StringToken ''Internal Server Error'',
                                  ObjectEnd])]\<rparr>)"
    by (simp add: ServeHTTP_Ok [OF json_Marshal_InternalServerError])
next
  assume "next w = (Panicked (PanicError err), w')" "errors_As err = Some d"
    and n: "\<forall>b. json_Marshal h d \<noteq> Ok b"
  then have e: "Handler h next w = ServeHTTP h d w'" by (simp add: Handler_Details)
  show "\<exists>p. Handler h next w = (Panicked p, w')"
  proof (cases "json_Marshal h d")
    case (Ok b)
    with n show ?thesis by simp
  next
    case (Err e')
    then show ?thesis unfolding e using ServeHTTP_Err by blast
  next
    case (Panic p)
    then show ?thesis unfolding e using ServeHTTP_Panic by blast
  qed
qed

text \<open>
  The tests \<^verbatim>\<open>No error\<close>, \<^verbatim>\<open>Wrapped Details\<close> and \<^verbatim>\<open>Not an error\<close>, and a \<^verbatim>\<open>Details\<close> with an
  extension whose \<^verbatim>\<open>MarshalJSON\<close> returns an error.
\<close>

theorem Handler_recovers_witness:
  "Handler [] (textHandler ''Hello World'') \<lparr>Header = [], calls = []\<rparr>
     = (Returned, \<lparr>Header = [(''Content-Type'', [''text/plain''])],
                   calls = [CallWrite (Text ''Hello World'')]\<rparr>)
   \<and> errors_As (ErrWrap [] (Some (ErrDetails (Details [] 418 ''I am a teapot'' [] [] None None))))
       = Some (Details [] 418 ''I am a teapot'' [] [] None None)
   \<and> json_Marshal [] (Details [] 418 ''I am a teapot'' [] [] None None)
       = Ok [ObjectStart, StringToken ''status'', IntToken 418,
             StringToken ''title'', StringToken ''I am a teapot'', ObjectEnd]
   \<and> Handler []
         (panicHandler (PanicError
            (ErrWrap [] (Some (ErrDetails (Details [] 418 ''I am a teapot'' [] [] None None))))))
         \<lparr>Header = [], calls = []\<rparr>
       = (Returned,
          \<lparr>Header = [(''Content-Type'', [''application/problem+json'']),
                     (''X-Content-Type-Options'', [''nosniff''])],
           calls = [CallWriteHeader 418,
                    CallWrite (Serialized [ObjectStart, StringToken ''status'', IntToken 418,
                      StringToken ''title'', StringToken ''I am a teapot'', ObjectEnd])]\<rparr>)
   \<and> Handler [] (panicHandler (PanicValue ''not an error'')) \<lparr>Header = [], calls = []\<rparr>
       = (Returned,
          \<lparr>Header = [(''Content-Type'', [''application/problem+json'']),
                     (''X-Content-Type-Options'', [''nosniff''])],
           calls = [CallWriteHeader 500,
                    CallWrite (Serialized [ObjectStart, StringToken ''status'', IntToken 500,
                      StringToken ''title'', StringToken ''Internal Server Error'', ObjectEnd])]\<rparr>)
   \<and> (\<exists>p. Handler [[(''invalid'', AMarshaler (Fails ''unsupported''))]]
            (panicHandler (PanicError (ErrDetails (Details [] 418 [] [] [] (Some 0) None))))
            \<lparr>Header = [], calls = []\<rparr>
          = (Panicked p, \<lparr>Header = [], calls = []\<rparr>))"
proof -
  let ?w = "\<lparr>Header = [], calls = []\<rparr>"
  let ?t = "Details [] 418 ''I am a teapot'' [] [] None None"
  let ?e = "ErrWrap [] (Some (ErrDetails ?t))"
  let ?h = "[[(''invalid'', AMarshaler (Fails ''unsupported''))]]"
  let ?b = "Details [] 418 [] [] [] (Some 0) None"
  have t: "textHandler ''Hello World'' ?w
             = (Returned, \<lparr>Header = [(''Content-Type'', [''text/plain''])],
                           calls = [CallWrite (Text ''Hello World'')]\<rparr>)"
    by (simp add: textHandler_def Header_Set_def Write_def)
  have a: "errors_As ?e = Some ?t" by simp
  have m: "json_Marshal [] ?t = Ok [ObjectStart, StringToken ''status'', IntToken 418,
             StringToken ''title'', StringToken ''I am a teapot'', ObjectEnd]"
    by code_simp
  have p: "panicHandler v ?w = (Panicked v, ?w)" for v
    by (simp add: panicHandler_def)
  have f: "json_Marshal ?h ?b = Err (MarshalerError ''unsupported'')"
    by code_simp
  then have n: "\<forall>b. json_Marshal ?h ?b \<noteq> Ok b" by simp
  have 1: "Handler [] (textHandler ''Hello World'') ?w
     = (Returned, \<lparr>Header = [(''Content-Type'', [''text/plain''])],
                   calls = [CallWrite (Text ''Hello World'')]\<rparr>)"
    using Handler_recovers [of "textHandler ''Hello World''" ?w _ "[]"] t by blast
  have 2: "Handler [] (panicHandler (PanicError ?e)) ?w
       = (Returned,
          \<lparr>Header = [(''Content-Type'', [''application/problem+json'']),
                     (''X-Content-Type-Options'', [''nosniff''])],
           calls = [CallWriteHeader 418,
                    CallWrite (Serialized [ObjectStart, StringToken ''status'', IntToken 418,
                      StringToken ''title'', StringToken ''I am a teapot'', ObjectEnd])]\<rparr>)"
    using Handler_recovers [of "panicHandler (PanicError ?e)" ?w ?w "[]" ?e ?t] p a m by simp
  have 3: "Handler [] (panicHandler (PanicValue ''not an error'')) ?w
       = (Returned,
          \<lparr>Header = [(''Content-Type'', [''application/problem+json'']),
                     (''X-Content-Type-Options'', [''nosniff''])],
           calls = [CallWriteHeader 500,
                    CallWrite (Serialized [ObjectStart, StringToken ''status'', IntToken 500,
                      StringToken ''title'', StringToken ''Internal Server Error'', ObjectEnd])]\<rparr>)"
    using Handler_recovers [where ?next = "panicHandler (PanicValue ''not an error'')" and w = ?w
        and w' = ?w and h = "[]" and v = "PanicValue ''not an error''" and x = "''not an error''"] p
    by simp
  have 4: "\<exists>p. Handler ?h (panicHandler (PanicError (ErrDetails ?b))) ?w = (Panicked p, ?w)"
    using Handler_recovers [where ?next = "panicHandler (PanicError (ErrDetails ?b))" and w = ?w
        and w' = ?w and h = ?h and err = "ErrDetails ?b" and d = ?b] p n
    by simp
  from 1 a m 2 3 4 show ?thesis by blast
qed

text \<open>
  The claim C10 itself fails when the handler panics with a \<^verbatim>\<open>*Details\<close> that has the
  extension of the test \<^verbatim>\<open>Panic\<close>, a value whose \<^verbatim>\<open>MarshalJSON\<close> panics: no response is
  served and the caller of \<^verbatim>\<open>Handler\<close> sees a panic.
\<close>

theorem Handler_panic_escapes_counterexample:
  "Handler [[(''invalid'', AMarshaler (Panics (PanicValue ''MarshalJSON called'')))]]
     (panicHandler (PanicError (ErrDetails (Details [] 418 ''I am a teapot'' [] [] (Some 0) None))))
     \<lparr>Header = [], calls = []\<rparr>
   = (Panicked (PanicValue ''MarshalJSON called''), \<lparr>Header = [], calls = []\<rparr>)"
  by code_simp

section \<open>Claims about problem types\<close>



end
